theory Spec2Isabelle
  imports Complex_Main "HOL-Library.AList"
begin

section \<open>Python values shared by the models\<close>

text \<open>
  A Python \<open>str\<close> is modelled as \<open>string\<close>. The literals of the source that are not
  ASCII are carried as their UTF-8 bytes. An exception is a value: a function that can
  raise returns \<open>py_exception + 'a\<close>, with \<open>Inl\<close> for the raise.
\<close>

datatype py_exception =
    TimeoutError
  | ConnectionError
  | IndexError
  | KeyError
  | ValueError
  | HTTPException nat
  | OtherException string

section \<open>src/core/llm\_client.py: LLMClient\<close>

text \<open>
  \<open>config.llm\<close> and the fields \<open>LLMClient.__init__\<close> copies from it. The temperature
  is a Python float that the client only passes on.
\<close>

record llm_config =
  cfg_model :: string
  cfg_max_tokens :: nat
  cfg_temperature :: real
  cfg_request_timeout :: nat

datatype role = System | User | Assistant

type_synonym chat_message = "role \<times> string"

text \<open>The keyword arguments \<open>chat\<close> reads with \<open>kwargs.get\<close>.\<close>

record chat_kwargs =
  kw_model :: "string option"
  kw_max_tokens :: "nat option"
  kw_temperature :: "real option"

text \<open>The arguments of \<open>self.client.chat.completions.create\<close>.\<close>

record completion_request =
  rq_model :: string
  rq_messages :: "chat_message list"
  rq_max_tokens :: nat
  rq_temperature :: real
  rq_timeout :: nat
  rq_json_object :: bool

text \<open>
  The provider is outside the repository. A call to it either raises or returns the
  \<open>message.content\<close> of each choice (\<open>None\<close> for a null content). The provider is a
  function of the number of calls made so far, so that the model counts the calls.
\<close>

type_synonym provider = "nat \<Rightarrow> completion_request \<Rightarrow> py_exception + string option list"

definition apology :: string where
  "apology = map char_of
     [230, 138, 177, 230, 173, 137, 239, 188, 140, 231, 179, 187, 231, 187, 159, 230,
      154, 130, 230, 151, 182, 230, 151, 160, 230, 179, 149, 229, 147, 141, 229, 186,
      148, 227, 128, 130 :: nat]"

definition build_request :: "llm_config \<Rightarrow> chat_message list \<Rightarrow> chat_kwargs \<Rightarrow> completion_request" where
  "build_request cfg messages kwargs =
     \<lparr>rq_model = (case kw_model kwargs of Some m \<Rightarrow> m | None \<Rightarrow> cfg_model cfg),
      rq_messages = messages,
      rq_max_tokens = (case kw_max_tokens kwargs of Some n \<Rightarrow> n | None \<Rightarrow> cfg_max_tokens cfg),
      rq_temperature = (case kw_temperature kwargs of Some t \<Rightarrow> t | None \<Rightarrow> cfg_temperature cfg),
      rq_timeout = cfg_request_timeout cfg,
      rq_json_object = True\<rparr>"

text \<open>
  \<open>response.choices[0].message.content or ""\<close>: an empty list of choices raises
  IndexError, a null or empty content reads as the empty string.
\<close>

definition first_content :: "string option list \<Rightarrow> py_exception + string" where
  "first_content choices =
     (case choices of
        [] \<Rightarrow> Inl IndexError
      | c # _ \<Rightarrow> Inr (case c of None \<Rightarrow> [] | Some s \<Rightarrow> s))"

text \<open>
  \<open>LLMClient.chat\<close>. The state is the number of provider calls made so far. The body is
  one \<open>try\<close> whose \<open>except Exception\<close> returns the apology text.
\<close>

definition chat ::
  "llm_config \<Rightarrow> provider \<Rightarrow> chat_message list \<Rightarrow> chat_kwargs \<Rightarrow> nat \<Rightarrow> (py_exception + string) \<times> nat" where
  "chat cfg prov messages kwargs calls =
     (case prov calls (build_request cfg messages kwargs) of
        Inl e \<Rightarrow> (Inr apology, Suc calls)
      | Inr choices \<Rightarrow>
          (case first_content choices of
             Inl e \<Rightarrow> (Inr apology, Suc calls)
           | Inr content \<Rightarrow> (Inr content, Suc calls)))"

text \<open>
  \<open>LLMClient.generate_response\<close>: \<open>max_tokens or self.max_tokens\<close> and
  \<open>temperature or self.temperature\<close> read \<open>None\<close> and zero as absent.
\<close>

definition generate_response ::
  "llm_config \<Rightarrow> provider \<Rightarrow> string \<Rightarrow> nat option \<Rightarrow> real option \<Rightarrow> string option \<Rightarrow> nat
     \<Rightarrow> (py_exception + string) \<times> nat" where
  "generate_response cfg prov prompt max_tokens temperature system_message calls =
     chat cfg prov
       ((case system_message of
           None \<Rightarrow> []
         | Some s \<Rightarrow> (if s = [] then [] else [(System, s)])) @ [(User, prompt)])
       \<lparr>kw_model = None,
        kw_max_tokens = Some (case max_tokens of
                                None \<Rightarrow> cfg_max_tokens cfg
                              | Some n \<Rightarrow> (if n = 0 then cfg_max_tokens cfg else n)),
        kw_temperature = Some (case temperature of
                                 None \<Rightarrow> cfg_temperature cfg
                               | Some t \<Rightarrow> (if t = 0 then cfg_temperature cfg else t))\<rparr>
       calls"

section \<open>Python string and dict operations\<close>

text \<open>
  \<open>str.isspace\<close>, \<open>str.lower\<close>, \<open>str.strip\<close>, \<open>str.replace\<close> and \<open>str.join\<close> on ASCII
  text: the whitespace characters are the codes 9 to 13 and 28 to 32, the upper-case
  letters the codes 65 to 90. Bytes of a UTF-8 sequence are left as they are.
\<close>

definition py_isspace :: "char \<Rightarrow> bool" where
  "py_isspace c = (let n = (of_char c :: nat) in (9 \<le> n \<and> n \<le> 13) \<or> (28 \<le> n \<and> n \<le> 32))"

definition py_lower_char :: "char \<Rightarrow> char" where
  "py_lower_char c =
     (let n = (of_char c :: nat) in if 65 \<le> n \<and> n \<le> 90 then char_of (n + 32) else c)"

definition py_lower :: "string \<Rightarrow> string" where
  "py_lower s = map py_lower_char s"

definition py_strip :: "string \<Rightarrow> string" where
  "py_strip s = rev (dropWhile py_isspace (rev (dropWhile py_isspace s)))"

function py_replace :: "string \<Rightarrow> string \<Rightarrow> string \<Rightarrow> string" where
  "py_replace old new s =
     (if old = [] then new @ concat (map (\<lambda>c. c # new) s)
      else if s = [] then []
      else if take (length old) s = old then new @ py_replace old new (drop (length old) s)
      else hd s # py_replace old new (tl s))"
  by pat_completeness auto
termination
  by (relation "measure (\<lambda>(old, new, s). length s)") auto

fun py_join :: "string \<Rightarrow> string list \<Rightarrow> string" where
  "py_join sep [] = []"
| "py_join sep [x] = x"
| "py_join sep (x # y # ys) = x @ sep @ py_join sep (y # ys)"

text \<open>
  A \<open>dict\<close> is an association list in insertion order: \<open>AList.update\<close> overwrites a key
  in place or appends it, as an assignment does, and \<open>map_of\<close> is the lookup.
\<close>

type_synonym ('k, 'v) dict = "('k \<times> 'v) list"

definition dict_update :: "('k, 'v) dict \<Rightarrow> ('k, 'v) dict \<Rightarrow> ('k, 'v) dict" where
  "dict_update d kw = fold (\<lambda>(k, v). AList.update k v) kw d"

section \<open>The knowledge graph and the session memory\<close>

text \<open>
  \<open>src/graph\<close> and \<open>src/memory\<close> are not among the source files; the engine and the
  server call them. The operations below are modelled from section 4.1 and 4.2 of the
  specification. Timestamps are left out.
\<close>

datatype attr_value = AStr string | ABool bool | AStrs "string list"

record kg_node =
  node_type :: string
  node_attrs :: "(string, attr_value) dict"
  is_deleted :: bool
  deletion_reason :: "string option"

type_synonym kg_edge = "string \<times> string \<times> string"

record kgraph =
  nodes :: "(string, kg_node) dict"
  edges :: "kg_edge list"

definition get_node :: "kgraph \<Rightarrow> string \<Rightarrow> kg_node option" where
  "get_node g nid = map_of (nodes g) nid"

definition has_node :: "kgraph \<Rightarrow> string \<Rightarrow> bool" where
  "has_node g nid = (get_node g nid \<noteq> None)"

definition incident :: "string \<Rightarrow> kg_edge \<Rightarrow> bool" where
  "incident nid e = (case e of (s, t, r) \<Rightarrow> s = nid \<or> t = nid)"

text \<open>
  Modelled from the spec: \<open>add_or_update_node(id, type, **attrs)\<close> upserts and preserves
  the attributes the call does not give.
\<close>

definition kg_add_or_update_node ::
  "string \<Rightarrow> string \<Rightarrow> (string, attr_value) dict \<Rightarrow> kgraph \<Rightarrow> kgraph" where
  "kg_add_or_update_node nid ty kw g =
     g\<lparr>nodes := AList.update nid
        (case get_node g nid of
           None \<Rightarrow> \<lparr>node_type = ty, node_attrs = dict_update [] kw, is_deleted = False,
                     deletion_reason = None\<rparr>
         | Some n \<Rightarrow> n\<lparr>node_type := ty, node_attrs := dict_update (node_attrs n) kw\<rparr>)
        (nodes g)\<rparr>"

text \<open>
  Modelled from the spec: \<open>add_edge(source, target, relationship)\<close> fails with
  MissingEndpoint if either node is absent; two edges between the same pair differ in
  their relationship.
\<close>

definition kg_add_edge :: "string \<Rightarrow> string \<Rightarrow> string \<Rightarrow> kgraph \<Rightarrow> py_exception + kgraph" where
  "kg_add_edge s t r g =
     (if \<not> has_node g s \<or> \<not> has_node g t then Inl (OtherException ''MissingEndpoint'')
      else if (s, t, r) \<in> set (edges g) then Inr g
      else Inr (g\<lparr>edges := edges g @ [(s, t, r)]\<rparr>))"

text \<open>
  Modelled from the spec: \<open>delete_node(id)\<close> removes the node and all incident edges and
  returns whether it existed.
\<close>

definition kg_delete_node :: "string \<Rightarrow> kgraph \<Rightarrow> bool \<times> kgraph" where
  "kg_delete_node nid g =
     (if has_node g nid
      then (True, g\<lparr>nodes := AList.delete nid (nodes g),
                     edges := filter (\<lambda>e. \<not> incident nid e) (edges g)\<rparr>)
      else (False, g))"

text \<open>
  Modelled from the spec: \<open>mark_node_deleted(id, reason)\<close> is the soft delete; the node
  stays in the graph with \<open>is_deleted\<close> set.
\<close>

definition kg_mark_node_deleted :: "string \<Rightarrow> string \<Rightarrow> kgraph \<Rightarrow> bool \<times> kgraph" where
  "kg_mark_node_deleted nid reason g =
     (case get_node g nid of
        None \<Rightarrow> (False, g)
      | Some n \<Rightarrow>
          (True, g\<lparr>nodes := AList.update nid
                     (n\<lparr>is_deleted := True, deletion_reason := Some reason\<rparr>) (nodes g)\<rparr>))"

text \<open>
  Modelled from the spec: \<open>delete_edge(source, target, relationship)\<close> is the precise
  delete of that one edge and returns whether it existed. The wildcard matching is done
  by the caller in \<open>game_engine.py\<close>, which hands this operation one concrete edge at a
  time. An argument that is \<open>None\<close> names no edge.
\<close>

definition kg_delete_edge ::
  "string option \<Rightarrow> string option \<Rightarrow> string option \<Rightarrow> kgraph \<Rightarrow> bool \<times> kgraph" where
  "kg_delete_edge s t r g =
     (case (s, t, r) of
        (Some s', Some t', Some r') \<Rightarrow>
          (if (s', t', r') \<in> set (edges g)
           then (True, g\<lparr>edges := filter (\<lambda>e. e \<noteq> (s', t', r')) (edges g)\<rparr>)
           else (False, g))
      | _ \<Rightarrow> (False, g))"

text \<open>Modelled from the spec: \<open>clear()\<close> empties nodes and edges.\<close>

definition kg_clear :: "kgraph \<Rightarrow> kgraph" where
  "kg_clear g = g\<lparr>nodes := [], edges := []\<rparr>"

text \<open>
  Modelled from the spec: the session memory holds a knowledge graph, the conversation
  log and a key-value state, and hands the graph operations through.
\<close>

record grag_memory =
  knowledge_graph :: kgraph
  conversation_history :: "(string \<times> string) list"
  memory_state :: "(string, string) dict"
  graph_save_path :: "string option"

definition memory_add_or_update_node ::
  "string \<Rightarrow> string \<Rightarrow> (string, attr_value) dict \<Rightarrow> grag_memory \<Rightarrow> grag_memory" where
  "memory_add_or_update_node nid ty kw m =
     m\<lparr>knowledge_graph := kg_add_or_update_node nid ty kw (knowledge_graph m)\<rparr>"

definition memory_add_edge ::
  "string \<Rightarrow> string \<Rightarrow> string \<Rightarrow> grag_memory \<Rightarrow> py_exception + grag_memory" where
  "memory_add_edge s t r m =
     (case kg_add_edge s t r (knowledge_graph m) of
        Inl e \<Rightarrow> Inl e
      | Inr g \<Rightarrow> Inr (m\<lparr>knowledge_graph := g\<rparr>))"

definition memory_delete_node :: "string \<Rightarrow> grag_memory \<Rightarrow> bool \<times> grag_memory" where
  "memory_delete_node nid m =
     (case kg_delete_node nid (knowledge_graph m) of
        (b, g) \<Rightarrow> (b, m\<lparr>knowledge_graph := g\<rparr>))"

definition mark_node_as_deleted :: "string \<Rightarrow> string \<Rightarrow> grag_memory \<Rightarrow> bool \<times> grag_memory" where
  "mark_node_as_deleted nid reason m =
     (case kg_mark_node_deleted nid reason (knowledge_graph m) of
        (b, g) \<Rightarrow> (b, m\<lparr>knowledge_graph := g\<rparr>))"

definition memory_delete_edge ::
  "string option \<Rightarrow> string option \<Rightarrow> string option \<Rightarrow> grag_memory \<Rightarrow> bool \<times> grag_memory" where
  "memory_delete_edge s t r m =
     (case kg_delete_edge s t r (knowledge_graph m) of
        (b, g) \<Rightarrow> (b, m\<lparr>knowledge_graph := g\<rparr>))"

definition clear_all :: "grag_memory \<Rightarrow> grag_memory" where
  "clear_all m = m\<lparr>knowledge_graph := kg_clear (knowledge_graph m)\<rparr>"

definition add_conversation :: "string \<Rightarrow> string \<Rightarrow> grag_memory \<Rightarrow> grag_memory" where
  "add_conversation user_input assistant_response m =
     m\<lparr>conversation_history := conversation_history m @ [(user_input, assistant_response)]\<rparr>"

definition get_state :: "grag_memory \<Rightarrow> string \<Rightarrow> string option" where
  "get_state m k = map_of (memory_state m) k"

definition update_state :: "string \<Rightarrow> string \<Rightarrow> grag_memory \<Rightarrow> grag_memory" where
  "update_state k v m = m\<lparr>memory_state := AList.update k v (memory_state m)\<rparr>"

text \<open>
  Writing to disk is outside the model; what matters to the callers is whether a write
  raises. The disk is a function that says so for each kind of write.
\<close>

datatype disk_call = SaveGraph | SyncEntitiesToJson | SaveAllMemory

type_synonym disk = "disk_call \<Rightarrow> kgraph \<Rightarrow> py_exception option"

section \<open>src/core/game\_engine.py: GameEngine\<close>

subsection \<open>Deltas and results\<close>

text \<open>
  The execution-format delta. A field the source reads with \<open>.get\<close> is an option; a
  field it reads with \<open>[...]\<close> inside a \<open>try\<close> is an option too, \<open>None\<close> being the
  KeyError.
\<close>

record node_update =
  nu_node_id :: string
  nu_type :: "string option"
  nu_attributes :: "(string, attr_value) dict option"

record edge_add =
  ea_source :: string
  ea_target :: string
  ea_relationship :: string

record node_deletion =
  nd_node_id :: "string option"
  nd_deletion_type :: "string option"
  nd_reason :: "string option"

record edge_deletion =
  ed_source :: "string option"
  ed_target :: "string option"
  ed_relationship :: "string option"
  ed_reason :: "string option"

record delta =
  nodes_to_update :: "node_update list"
  edges_to_add :: "edge_add list"
  nodes_to_delete :: "node_deletion list"
  edges_to_delete :: "edge_deletion list"

record update_counts =
  nodes_updated :: int
  edges_added :: int
  nodes_deleted :: int
  edges_deleted :: int

definition zero_counts :: update_counts where
  "zero_counts = \<lparr>nodes_updated = 0, edges_added = 0, nodes_deleted = 0, edges_deleted = 0\<rparr>"

text \<open>
  The collaborators of the engine that are not among the source files are fields of the
  engine, as in \<open>GameEngine.__init__\<close>: each is the function the engine calls, and may
  raise. An analysis result is a dict that either has the key \<open>error\<close> or carries the
  updates.
\<close>

datatype analysis_result = AnalysisError string | AnalysisUpdates delta

record main_character_data =
  mc_name :: "string option"
  mc_attributes :: "(string, attr_value) dict option"

record entity_data =
  en_name :: "string option"
  en_type :: "string option"
  en_description :: "string option"
  en_attributes :: "(string, attr_value) dict option"

record relationship_data =
  rel_source :: "string option"
  rel_target :: "string option"
  rel_relationship :: "string option"

record parsed_data =
  pd_main_character :: "main_character_data option"
  pd_entities :: "entity_data list"
  pd_relationships :: "relationship_data list"

text \<open>
  \<open>agent_llm_client\<close> is \<open>llm_client.generate_response\<close> followed by \<open>json.loads\<close> on the
  character fields; \<open>Inl\<close> when the text is not JSON.
\<close>

record grag_update_agent =
  analyze_conversation_for_updates ::
    "string \<Rightarrow> string \<Rightarrow> kgraph \<Rightarrow> string \<Rightarrow> py_exception + analysis_result"
  convert_to_execution_format :: "analysis_result \<Rightarrow> py_exception + delta"
  agent_llm_client :: "(string list \<Rightarrow> py_exception + parsed_data) option"

record game_engine =
  memory :: grag_memory
  rpg_processor :: "string \<Rightarrow> py_exception + delta"
  validation_layer :: "delta \<Rightarrow> kgraph \<Rightarrow> py_exception + delta option"
  grag_agent :: "grag_update_agent option"

subsection \<open>Entity ids\<close>

definition generate_entity_id :: "string \<Rightarrow> string \<Rightarrow> string" where
  "generate_entity_id name entity_type =
     entity_type @ ''_'' @ py_replace '' '' ''_'' (py_lower (py_strip name))"

subsection \<open>Deletion events\<close>

definition process_node_deletion :: "node_deletion \<Rightarrow> grag_memory \<times> int \<Rightarrow> grag_memory \<times> int" where
  "process_node_deletion node_del acc =
     (case acc of (m, nodes_del) \<Rightarrow>
        (case nd_node_id node_del of
           None \<Rightarrow> (m, nodes_del)
         | Some node_id \<Rightarrow>
             (let deletion_type = (case nd_deletion_type node_del of None \<Rightarrow> ''default'' | Some t \<Rightarrow> t);
                  reason = (case nd_reason node_del of None \<Rightarrow> ''No reason provided'' | Some r \<Rightarrow> r)
              in if deletion_type = ''death''
                 then (snd (mark_node_as_deleted node_id reason m), nodes_del + 1)
                 else if deletion_type = ''lost''
                 then (case memory_delete_node node_id m of
                         (True, m') \<Rightarrow> (m', nodes_del + 1)
                       | (False, m') \<Rightarrow> (m', nodes_del))
                 else (snd (mark_node_as_deleted node_id reason m), nodes_del + 1))))"

definition edge_matches :: "string option \<Rightarrow> string option \<Rightarrow> string option \<Rightarrow> kg_edge \<Rightarrow> bool" where
  "edge_matches source target relationship e =
     (case e of (src, tgt, rel) \<Rightarrow>
        \<not> (source \<noteq> Some ''*'' \<and> Some src \<noteq> source) \<and>
        \<not> (target \<noteq> Some ''*'' \<and> Some tgt \<noteq> target) \<and>
        \<not> (relationship \<noteq> Some ''*'' \<and> Some rel \<noteq> relationship))"

definition remove_matched_edge :: "kg_edge \<Rightarrow> grag_memory \<times> int \<Rightarrow> grag_memory \<times> int" where
  "remove_matched_edge e acc =
     (case acc of (m, edges_del) \<Rightarrow>
        (case e of (src, tgt, rel) \<Rightarrow>
           (case memory_delete_edge (Some src) (Some tgt) (Some rel) m of
              (True, m') \<Rightarrow> (m', edges_del + 1)
            | (False, m') \<Rightarrow> (m', edges_del))))"

definition process_edge_deletion :: "edge_deletion \<Rightarrow> grag_memory \<times> int \<Rightarrow> grag_memory \<times> int" where
  "process_edge_deletion edge_del acc =
     (case acc of (m, edges_del) \<Rightarrow>
        (let source = ed_source edge_del;
             target = ed_target edge_del;
             relationship = ed_relationship edge_del
         in if source = Some ''*'' \<or> relationship = Some ''*''
            then (let edges_to_remove =
                        filter (edge_matches source target relationship) (edges (knowledge_graph m))
                  in fold remove_matched_edge edges_to_remove (m, edges_del))
            else (case memory_delete_edge source target relationship m of
                    (True, m') \<Rightarrow> (m', edges_del + 1)
                  | (False, m') \<Rightarrow> (m', edges_del))))"

definition process_deletion_events :: "delta \<Rightarrow> grag_memory \<Rightarrow> grag_memory \<times> int \<times> int" where
  "process_deletion_events validated_updates m =
     (case fold process_node_deletion (nodes_to_delete validated_updates) (m, 0) of
        (m1, nodes_del) \<Rightarrow>
          (case fold process_edge_deletion (edges_to_delete validated_updates) (m1, 0) of
             (m2, edges_del) \<Rightarrow> (m2, nodes_del, edges_del)))"

subsection \<open>Applying a validated delta\<close>

definition apply_node_update :: "node_update \<Rightarrow> grag_memory \<times> int \<Rightarrow> grag_memory \<times> int" where
  "apply_node_update nu acc =
     (case acc of (m, cnt) \<Rightarrow>
        (if \<not> has_node (knowledge_graph m) (nu_node_id nu)
         then (let node_type0 = (case nu_type nu of None \<Rightarrow> ''unknown'' | Some t \<Rightarrow> t);
                   node_type1 =
                     (if node_type0 = ''unknown'' \<and>
                         ''location'' \<in> fst ` set (case nu_attributes nu of None \<Rightarrow> [] | Some a \<Rightarrow> a)
                      then ''character'' else node_type0)
               in (case nu_attributes nu of
                     None \<Rightarrow> (m, cnt - 1)
                   | Some a \<Rightarrow> (memory_add_or_update_node (nu_node_id nu) node_type1 a m, cnt)))
         else (case get_node (knowledge_graph m) (nu_node_id nu) of
                 None \<Rightarrow> (m, cnt - 1)
               | Some existing_node \<Rightarrow>
                   (case nu_attributes nu of
                      None \<Rightarrow> (m, cnt - 1)
                    | Some a \<Rightarrow>
                        (memory_add_or_update_node (nu_node_id nu) (node_type existing_node) a m,
                         cnt)))))"

definition apply_edge_add :: "edge_add \<Rightarrow> grag_memory \<times> int \<Rightarrow> grag_memory \<times> int" where
  "apply_edge_add ea acc =
     (case acc of (m, cnt) \<Rightarrow>
        (case memory_add_edge (ea_source ea) (ea_target ea) (ea_relationship ea) m of
           Inl e \<Rightarrow> (m, cnt - 1)
         | Inr m' \<Rightarrow> (m', cnt)))"

text \<open>
  \<open>if self.memory.graph_save_path: save_graph(...)\<close> followed by
  \<open>sync_entities_to_json()\<close>: the first write that raises ends the two.
\<close>

definition save_and_sync :: "disk \<Rightarrow> grag_memory \<Rightarrow> py_exception option" where
  "save_and_sync dk m =
     (case (if graph_save_path m \<noteq> None \<and> graph_save_path m \<noteq> Some []
            then dk SaveGraph (knowledge_graph m) else None) of
        Some e \<Rightarrow> Some e
      | None \<Rightarrow> dk SyncEntitiesToJson (knowledge_graph m))"

text \<open>
  \<open>_apply_validated_updates\<close>. The argument is \<open>None\<close> for a falsy \<open>validated_updates\<close>
  (\<open>None\<close> or the empty dict).
\<close>

definition apply_validated_updates ::
  "disk \<Rightarrow> delta option \<Rightarrow> grag_memory \<Rightarrow> (py_exception + update_counts) \<times> grag_memory" where
  "apply_validated_updates dk validated_updates m =
     (case validated_updates of
        None \<Rightarrow> (Inr zero_counts, m)
      | Some d \<Rightarrow>
          (case process_deletion_events d m of
             (m1, nodes_deleted_count, edges_deleted_count) \<Rightarrow>
               (case fold apply_node_update (nodes_to_update d) (m1, int (length (nodes_to_update d))) of
                  (m2, nodes_updated_count) \<Rightarrow>
                    (case fold apply_edge_add (edges_to_add d) (m2, int (length (edges_to_add d))) of
                       (m3, edges_added_count) \<Rightarrow>
                         (case save_and_sync dk m3 of
                            Some e \<Rightarrow> (Inl e, m3)
                          | None \<Rightarrow>
                              (Inr \<lparr>nodes_updated = nodes_updated_count,
                                    edges_added = edges_added_count,
                                    nodes_deleted = nodes_deleted_count,
                                    edges_deleted = edges_deleted_count\<rparr>, m3))))))"

subsection \<open>Per-turn extraction\<close>

definition user_prefix :: string where
  "user_prefix = map char_of [231, 148, 168, 230, 136, 183, 58, 32 :: nat]"

definition assistant_prefix :: string where
  "assistant_prefix = map char_of [229, 138, 169, 230, 137, 139, 58, 32 :: nat]"

definition get_recent_conversation_context :: "grag_memory \<Rightarrow> string" where
  "get_recent_conversation_context m =
     (let history = conversation_history m;
          recent_history = drop (length history - 3) history;
          context_parts =
            concat (map (\<lambda>(user_msg, assistant_msg).
                      (if user_msg \<noteq> [] then [user_prefix @ user_msg] else []) @
                      (if assistant_msg \<noteq> [] then [assistant_prefix @ assistant_msg] else []))
                    recent_history)
      in py_join [CHR 0x0A] context_parts)"

text \<open>
  \<open>_extract_with_local_processor\<close>: the body of its \<open>try\<close> (processor, validation,
  application), and the function, whose \<open>except Exception\<close> returns the zero counters.
  The memory stays as the body left it.
\<close>

definition local_processor_body ::
  "disk \<Rightarrow> game_engine \<Rightarrow> string \<Rightarrow> (py_exception + update_counts) \<times> game_engine" where
  "local_processor_body dk eng llm_response =
     (case rpg_processor eng llm_response of
        Inl e \<Rightarrow> (Inl e, eng)
      | Inr updates \<Rightarrow>
          (case validation_layer eng updates (knowledge_graph (memory eng)) of
             Inl e \<Rightarrow> (Inl e, eng)
           | Inr validated_updates \<Rightarrow>
               (case apply_validated_updates dk validated_updates (memory eng) of
                  (res, m') \<Rightarrow> (res, eng\<lparr>memory := m'\<rparr>))))"

definition extract_with_local_processor ::
  "disk \<Rightarrow> game_engine \<Rightarrow> string \<Rightarrow> (py_exception + update_counts) \<times> game_engine" where
  "extract_with_local_processor dk eng llm_response =
     (case local_processor_body dk eng llm_response of
        (Inl e, eng') \<Rightarrow> (Inr zero_counts, eng')
      | (Inr counts, eng') \<Rightarrow> (Inr counts, eng'))"

text \<open>
  \<open>_extract_with_agent\<close>: the body of its \<open>try\<close> (analysis, conversion, validation,
  application; an analysis with the key \<open>error\<close> returns the local processor's result
  from inside the body), and the function, whose \<open>except Exception\<close> calls the local
  processor on the memory as the body left it.
\<close>

definition agent_body ::
  "disk \<Rightarrow> game_engine \<Rightarrow> grag_update_agent \<Rightarrow> string \<Rightarrow> string
     \<Rightarrow> (py_exception + update_counts) \<times> game_engine" where
  "agent_body dk eng agent user_input llm_response =
     (let recent_context = get_recent_conversation_context (memory eng)
      in case analyze_conversation_for_updates agent user_input llm_response
                (knowledge_graph (memory eng)) recent_context of
           Inl e \<Rightarrow> (Inl e, eng)
         | Inr (AnalysisError msg) \<Rightarrow> extract_with_local_processor dk eng llm_response
         | Inr (AnalysisUpdates u) \<Rightarrow>
             (case convert_to_execution_format agent (AnalysisUpdates u) of
                Inl e \<Rightarrow> (Inl e, eng)
              | Inr execution_format \<Rightarrow>
                  (case validation_layer eng execution_format (knowledge_graph (memory eng)) of
                     Inl e \<Rightarrow> (Inl e, eng)
                   | Inr validated_updates \<Rightarrow>
                       (case apply_validated_updates dk validated_updates (memory eng) of
                          (res, m') \<Rightarrow> (res, eng\<lparr>memory := m'\<rparr>)))))"

definition extract_with_agent ::
  "disk \<Rightarrow> game_engine \<Rightarrow> grag_update_agent \<Rightarrow> string \<Rightarrow> string
     \<Rightarrow> (py_exception + update_counts) \<times> game_engine" where
  "extract_with_agent dk eng agent user_input llm_response =
     (case agent_body dk eng agent user_input llm_response of
        (Inl e, eng') \<Rightarrow> extract_with_local_processor dk eng' llm_response
      | (Inr counts, eng') \<Rightarrow> (Inr counts, eng'))"

definition extract_updates_from_response ::
  "disk \<Rightarrow> game_engine \<Rightarrow> string \<Rightarrow> string \<Rightarrow> (py_exception + update_counts) \<times> game_engine" where
  "extract_updates_from_response dk eng llm_response user_input =
     (case grag_agent eng of
        Some agent \<Rightarrow> extract_with_agent dk eng agent user_input llm_response
      | None \<Rightarrow> extract_with_local_processor dk eng llm_response)"

subsection \<open>Bootstrap from a character card\<close>

record character_card =
  card_name :: "string option"
  card_description :: "string option"
  card_personality :: "string option"
  card_scenario :: "string option"
  card_first_mes :: "string option"
  card_mes_example :: "string option"
  card_world_info :: "string option"

record init_result =
  ir_nodes_added :: int
  ir_edges_added :: int
  ir_method :: string
  ir_character_name :: "string option"
  ir_error :: "py_exception option"

definition main_role_text :: string where
  "main_role_text = map char_of [228, 184, 187, 232, 166, 129, 232, 167, 146, 232, 137, 178 :: nat]"

definition or_default :: "'a option \<Rightarrow> 'a \<Rightarrow> 'a" where
  "or_default v d = (case v of None \<Rightarrow> d | Some x \<Rightarrow> x)"

text \<open>
  \<open>_fallback_simple_initialization\<close>: the main character alone, under the generated id.
\<close>

definition fallback_simple_initialization ::
  "disk \<Rightarrow> game_engine \<Rightarrow> string \<Rightarrow> string \<Rightarrow> init_result \<times> game_engine" where
  "fallback_simple_initialization dk eng char_name char_description =
     (let character_id = generate_entity_id char_name ''character'';
          attributes =
            [(''name'', AStr char_name),
             (''description'',
                AStr (if char_description \<noteq> [] then take 200 char_description else main_role_text)),
             (''is_main_character'', ABool True),
             (''source'', AStr ''simple_fallback'')];
          m' = memory_add_or_update_node character_id ''character'' attributes (memory eng)
      in case save_and_sync dk m' of
           Some e \<Rightarrow>
             (\<lparr>ir_nodes_added = 0, ir_edges_added = 0, ir_method = ''failed'',
               ir_character_name = None, ir_error = Some e\<rparr>, eng\<lparr>memory := m'\<rparr>)
         | None \<Rightarrow>
             (\<lparr>ir_nodes_added = 1, ir_edges_added = 0, ir_method = ''simple_fallback'',
               ir_character_name = Some char_name, ir_error = None\<rparr>, eng\<lparr>memory := m'\<rparr>))"

text \<open>
  \<open>_apply_llm_analysis_results\<close>. \<open>pd_main_character\<close> is \<open>None\<close> for a missing, null or
  empty \<open>main_character\<close>; an entity without a name is skipped.
\<close>

definition add_main_character ::
  "main_character_data option \<Rightarrow> string \<Rightarrow> grag_memory \<times> int \<Rightarrow> grag_memory \<times> int" where
  "add_main_character main_char_data char_name acc =
     (case acc of (m, nodes_add) \<Rightarrow>
        (case main_char_data of
           None \<Rightarrow> (m, nodes_add)
         | Some mc \<Rightarrow>
             (let nm = or_default (mc_name mc) char_name;
                  char_id = generate_entity_id nm ''character'';
                  attributes = dict_update (or_default (mc_attributes mc) [])
                    [(''name'', AStr nm), (''source'', AStr ''llm_character_card''),
                     (''is_main_character'', ABool True)]
              in (memory_add_or_update_node char_id ''character'' attributes m, nodes_add + 1))))"

definition add_entity :: "entity_data \<Rightarrow> grag_memory \<times> int \<Rightarrow> grag_memory \<times> int" where
  "add_entity entity acc =
     (case acc of (m, nodes_add) \<Rightarrow>
        (case en_name entity of
           None \<Rightarrow> (m, nodes_add)
         | Some nm \<Rightarrow>
             (if nm = [] then (m, nodes_add)
              else (let ty = or_default (en_type entity) ''unknown'';
                        entity_id = generate_entity_id nm ty;
                        attributes = dict_update (or_default (en_attributes entity) [])
                          [(''name'', AStr nm),
                           (''description'', AStr (or_default (en_description entity) [])),
                           (''source'', AStr ''llm_analysis'')]
                    in (memory_add_or_update_node entity_id ty attributes m, nodes_add + 1)))))"

definition map_entity_name :: "entity_data \<Rightarrow> (string, string) dict \<Rightarrow> (string, string) dict" where
  "map_entity_name entity entity_name_to_id =
     (case en_name entity of
        None \<Rightarrow> entity_name_to_id
      | Some nm \<Rightarrow>
          (if nm = [] then entity_name_to_id
           else AList.update nm (generate_entity_id nm (or_default (en_type entity) ''unknown''))
                  entity_name_to_id))"

definition entity_name_map ::
  "main_character_data option \<Rightarrow> entity_data list \<Rightarrow> string \<Rightarrow> (string, string) dict" where
  "entity_name_map main_char_data ents char_name =
     fold map_entity_name ents
       (case main_char_data of
          None \<Rightarrow> []
        | Some mc \<Rightarrow>
            [(or_default (mc_name mc) char_name,
              generate_entity_id (or_default (mc_name mc) char_name) ''character'')])"

fun add_relationships ::
  "(string, string) dict \<Rightarrow> relationship_data list \<Rightarrow> grag_memory \<times> int \<Rightarrow> grag_memory \<times> int" where
  "add_relationships ids [] acc = acc"
| "add_relationships ids (rel # rest) (m, edges_add) =
     (case (rel_source rel, rel_target rel) of
        (Some source_name, Some target_name) \<Rightarrow>
          (if source_name = [] \<or> target_name = [] then add_relationships ids rest (m, edges_add)
           else (case (map_of ids source_name, map_of ids target_name) of
                   (Some source_id, Some target_id) \<Rightarrow>
                     (if source_id = [] \<or> target_id = []
                      then add_relationships ids rest (m, edges_add)
                      else if get_node (knowledge_graph m) source_id \<noteq> None \<and>
                              get_node (knowledge_graph m) target_id \<noteq> None
                      then (case memory_add_edge source_id target_id
                                   (or_default (rel_relationship rel) ''related'') m of
                              Inl e \<Rightarrow> (m, edges_add)
                            | Inr m' \<Rightarrow> add_relationships ids rest (m', edges_add + 1))
                      else add_relationships ids rest (m, edges_add))
                 | _ \<Rightarrow> add_relationships ids rest (m, edges_add)))
      | _ \<Rightarrow> add_relationships ids rest (m, edges_add))"

definition apply_llm_analysis_results ::
  "parsed_data \<Rightarrow> string \<Rightarrow> grag_memory \<Rightarrow> (int \<times> int) \<times> grag_memory" where
  "apply_llm_analysis_results pd char_name m =
     (case fold add_entity (pd_entities pd)
             (add_main_character (pd_main_character pd) char_name (m, 0)) of
        (m1, nodes_add) \<Rightarrow>
          (case add_relationships
                  (entity_name_map (pd_main_character pd) (pd_entities pd) char_name)
                  (pd_relationships pd) (m1, 0) of
             (m2, edges_add) \<Rightarrow> ((nodes_add, edges_add), m2)))"

definition is_llm_available :: "bool \<Rightarrow> game_engine \<Rightarrow> bool" where
  "is_llm_available api_key_set eng =
     (case grag_agent eng of
        None \<Rightarrow> False
      | Some agent \<Rightarrow> (if agent_llm_client agent = None then False else api_key_set))"

text \<open>
  \<open>_perform_llm_analysis\<close>: \<open>None\<close> when the reply is not JSON or anything else raises,
  with the memory as the attempt left it.
\<close>

definition perform_llm_analysis ::
  "disk \<Rightarrow> game_engine \<Rightarrow> string \<Rightarrow> string list \<Rightarrow> init_result option \<times> game_engine" where
  "perform_llm_analysis dk eng name other_fields =
     (case grag_agent eng of
        None \<Rightarrow> (None, eng)
      | Some agent \<Rightarrow>
          (case agent_llm_client agent of
             None \<Rightarrow> (None, eng)
           | Some llm \<Rightarrow>
               (case llm (name # other_fields) of
                  Inl e \<Rightarrow> (None, eng)
                | Inr pd \<Rightarrow>
                    (case apply_llm_analysis_results pd name (memory eng) of
                       ((nodes_add, edges_add), m') \<Rightarrow>
                         (case save_and_sync dk m' of
                            Some e \<Rightarrow> (None, eng\<lparr>memory := m'\<rparr>)
                          | None \<Rightarrow>
                              (Some \<lparr>ir_nodes_added = nodes_add, ir_edges_added = edges_add,
                                     ir_method = ''llm_analysis'',
                                     ir_character_name = Some name, ir_error = None\<rparr>,
                               eng\<lparr>memory := m'\<rparr>))))))"

definition initialize_from_tavern_data ::
  "disk \<Rightarrow> bool \<Rightarrow> game_engine \<Rightarrow> character_card \<Rightarrow> string \<Rightarrow> init_result \<times> game_engine" where
  "initialize_from_tavern_data dk api_key_set eng ccard world_info =
     (let char_name = or_default (card_name ccard) ''Unknown Character'';
          char_description = or_default (card_description ccard) []
      in if \<not> is_llm_available api_key_set eng
         then fallback_simple_initialization dk eng char_name char_description
         else (case perform_llm_analysis dk eng char_name
                      [char_description, or_default (card_personality ccard) [],
                       or_default (card_scenario ccard) [], or_default (card_first_mes ccard) [],
                       or_default (card_mes_example ccard) [], world_info] of
                 (Some analysis, eng') \<Rightarrow> (analysis, eng')
               | (None, eng') \<Rightarrow>
                   fallback_simple_initialization dk eng' char_name char_description))"

section \<open>api\_server.py: the WebSocket connection manager\<close>

text \<open>
  A socket is known by its identity, a number. What the server does to sockets is kept
  as the list of calls it made, in order. Whether a call raises is decided outside the
  server: \<open>net\<close> says so for each call.
\<close>

datatype ws_call = WsAccept nat | WsClose nat nat | WsSend nat string

type_synonym net = "ws_call \<Rightarrow> bool"

record connection_manager =
  active_connections :: "(string, nat) dict"
  ws_log :: "ws_call list"

definition ws_do :: "ws_call \<Rightarrow> connection_manager \<Rightarrow> connection_manager" where
  "ws_do c mgr = mgr\<lparr>ws_log := ws_log mgr @ [c]\<rparr>"

text \<open>
  The \<open>if old_ws is not None and old_ws is not websocket\<close> block of \<open>connect\<close>: the
  close of the old socket, whose exception is swallowed.
\<close>

definition close_replaced :: "string \<Rightarrow> nat \<Rightarrow> connection_manager \<Rightarrow> connection_manager" where
  "close_replaced session_id websocket mgr =
     (case map_of (active_connections mgr) session_id of
        None \<Rightarrow> mgr
      | Some old_ws \<Rightarrow> (if old_ws \<noteq> websocket then ws_do (WsClose old_ws 1012) mgr else mgr))"

definition store_connection :: "string \<Rightarrow> nat \<Rightarrow> connection_manager \<Rightarrow> connection_manager" where
  "store_connection session_id websocket mgr =
     mgr\<lparr>active_connections := AList.update session_id websocket (active_connections mgr)\<rparr>"

definition connect ::
  "net \<Rightarrow> string \<Rightarrow> nat \<Rightarrow> connection_manager \<Rightarrow> (py_exception + unit) \<times> connection_manager" where
  "connect nt session_id websocket mgr =
     (if nt (WsAccept websocket)
      then (Inl ConnectionError, ws_do (WsAccept websocket) mgr)
      else (Inr (),
            store_connection session_id websocket
              (close_replaced session_id websocket (ws_do (WsAccept websocket) mgr))))"

definition disconnect :: "string \<Rightarrow> nat option \<Rightarrow> connection_manager \<Rightarrow> connection_manager" where
  "disconnect session_id websocket mgr =
     (if map_of (active_connections mgr) session_id \<noteq> None
      then (if websocket = None \<or> map_of (active_connections mgr) session_id = websocket
            then mgr\<lparr>active_connections := AList.delete session_id (active_connections mgr)\<rparr>
            else mgr)
      else mgr)"

definition send_message :: "net \<Rightarrow> string \<Rightarrow> string \<Rightarrow> connection_manager \<Rightarrow> connection_manager" where
  "send_message nt session_id msg mgr =
     (case map_of (active_connections mgr) session_id of
        None \<Rightarrow> mgr
      | Some websocket \<Rightarrow>
          (if nt (WsSend websocket msg)
           then disconnect session_id (Some websocket) (ws_do (WsSend websocket msg) mgr)
           else ws_do (WsSend websocket msg) mgr))"

section \<open>api\_server.py: process-wide state\<close>

text \<open>
  Modelled from the spec: the storage manager (\<open>src/storage\<close> is not among the source
  files) keeps the mapping from a character to its directory and the registry of
  sessions. \<open>register_character(card, session_id)\<close> derives a directory name from the
  character name and persists the mapping.
\<close>

record session_info =
  character_mapping_key :: string
  local_dir_name :: string

record storage =
  character_mapping :: "(string, string) dict"
  active_sessions :: "(string, session_info) dict"

definition safe_dir_char :: "char \<Rightarrow> char" where
  "safe_dir_char c =
     (let n = (of_char c :: nat)
      in if (48 \<le> n \<and> n \<le> 57) \<or> (65 \<le> n \<and> n \<le> 90) \<or> (97 \<le> n \<and> n \<le> 122) \<or> n = 45 \<or> n = 95
         then c else CHR ''_'')"

text \<open>
  Modelled from the spec: \<open>register_character(card, session_id)\<close>, the directory name
  being the character name with every character that is not a letter, a digit, a hyphen
  or an underscore replaced by an underscore.
\<close>

definition register_tavern_character :: "character_card \<Rightarrow> string \<Rightarrow> storage \<Rightarrow> string \<times> storage" where
  "register_tavern_character ccard session_id st =
     (let key = or_default (card_name ccard) ''Unknown'';
          dir = map safe_dir_char key
      in (dir,
          st\<lparr>character_mapping := AList.update key dir (character_mapping st),
             active_sessions :=
               AList.update session_id \<lparr>character_mapping_key = key, local_dir_name = dir\<rparr>
                 (active_sessions st)\<rparr>))"

text \<open>Modelled from the spec: \<open>list_characters()\<close>, the registered characters.\<close>

definition storage_list_characters :: "storage \<Rightarrow> string list" where
  "storage_list_characters st = map fst (character_mapping st)"

text \<open>
  The sliding-window configuration of a session: the \<open>sliding_window\<close> entry of
  \<open>session_config\<close>, \<open>None\<close> when it is absent or empty.
\<close>

record sliding_config =
  sc_window_size :: "int option"
  sc_processing_delay :: "int option"
  sc_enable_enhanced_agent :: "bool option"

text \<open>
  What \<open>DelayedUpdateManager.process_new_conversation\<close> returns, as far as the server
  reads it.
\<close>

record window_result =
  new_turn_sequence :: int
  wr_target_processed :: bool
  current_turns :: int
  grag_updates :: "update_counts option"

record init_task =
  task_status :: string
  task_session_id :: "string option"

record plugin_character =
  pc_character_name :: string
  pc_character_data :: character_card

text \<open>
  The module-level state of \<open>api_server.py\<close>. \<open>'mgr\<close> is the type of a
  \<open>DelayedUpdateManager\<close>, which is not among the source files; a conflict resolver is
  only stored and dropped here.
\<close>

record 'mgr server =
  sessions :: "(string, game_engine) dict"
  session_creation_locks :: "string list"
  sliding_window_managers :: "(string, 'mgr) dict"
  conflict_resolvers :: "(string, unit) dict"
  initialization_tasks :: "(string, init_task) dict"
  plugin_character_data :: "(string, plugin_character) dict"
  pending_coordinated_reinits :: "string list"
  tavern_mode_active :: bool
  manager :: connection_manager
  storage_manager :: storage

text \<open>
  Everything the server calls that lies outside the source files: the disk, the
  network, the environment variables as \<open>int(os.getenv(...))\<close> reads them, the
  constructors of the memory, the agent and the sliding-window manager, and the
  manager's turn processing. The manager shares the engine's memory, so its turn
  processing takes the engine and returns it.
\<close>

record 'mgr runtime =
  rt_disk :: disk
  rt_net :: net
  rt_api_key_set :: bool
  rt_uuid4 :: string
  rt_env_window_size :: "py_exception + int"
  rt_env_processing_delay :: "py_exception + int"
  rt_env_enable_enhanced_agent :: bool
  rt_load_memory :: "storage \<Rightarrow> string \<Rightarrow> bool \<Rightarrow> py_exception + grag_memory"
  rt_rpg_processor :: "string \<Rightarrow> py_exception + delta"
  rt_validation_layer :: "delta \<Rightarrow> kgraph \<Rightarrow> py_exception + delta option"
  rt_make_agent :: "grag_update_agent option"
  rt_new_manager :: "int \<Rightarrow> int \<Rightarrow> bool \<Rightarrow> game_engine \<Rightarrow> py_exception + 'mgr"
  rt_process_new_conversation ::
    "'mgr \<Rightarrow> string \<Rightarrow> string \<Rightarrow> game_engine \<Rightarrow> py_exception + (window_result \<times> 'mgr \<times> game_engine)"
  rt_storage_init :: "storage \<Rightarrow> py_exception option \<times> storage"

definition node_count :: "game_engine \<Rightarrow> int" where
  "node_count eng = int (length (nodes (knowledge_graph (memory eng))))"

definition edge_count :: "game_engine \<Rightarrow> int" where
  "edge_count eng = int (length (edges (knowledge_graph (memory eng))))"

subsection \<open>Creating engines and sliding-window managers\<close>

definition get_or_create_session_engine ::
  "'mgr runtime \<Rightarrow> string \<Rightarrow> bool \<Rightarrow> bool \<Rightarrow> 'mgr server \<Rightarrow> (py_exception + game_engine) \<times> 'mgr server" where
  "get_or_create_session_engine rt session_id is_test enable_agent srv =
     (case map_of (sessions srv) session_id of
        Some engine \<Rightarrow> (Inr engine, srv)
      | None \<Rightarrow>
          (let srv1 = srv\<lparr>session_creation_locks :=
                          (if session_id \<in> set (session_creation_locks srv)
                           then session_creation_locks srv
                           else session_creation_locks srv @ [session_id])\<rparr>
           in case rt_load_memory rt (storage_manager srv1) session_id is_test of
                Inl e \<Rightarrow> (Inl e, srv1)
              | Inr m \<Rightarrow>
                  (let engine = \<lparr>memory = m, rpg_processor = rt_rpg_processor rt,
                                 validation_layer = rt_validation_layer rt,
                                 grag_agent = (if enable_agent then rt_make_agent rt else None)\<rparr>
                   in (Inr engine,
                       srv1\<lparr>sessions := AList.update session_id engine (sessions srv1)\<rparr>))))"

text \<open>
  \<open>get_or_create_sliding_window_manager\<close>. The defaults \<open>int(os.getenv(...))\<close> are
  arguments of \<open>.get\<close>, so they are evaluated, and may raise ValueError, whether or not the
  configuration has the key. An engine object is truthy, so \<open>if not engine\<close> holds only
  for a session without an engine.
\<close>

definition get_or_create_sliding_window_manager ::
  "'mgr runtime \<Rightarrow> string \<Rightarrow> sliding_config option \<Rightarrow> 'mgr server \<Rightarrow> (py_exception + 'mgr) \<times> 'mgr server" where
  "get_or_create_sliding_window_manager rt session_id session_config srv =
     (case map_of (sliding_window_managers srv) session_id of
        Some m \<Rightarrow> (Inr m, srv)
      | None \<Rightarrow>
          (case rt_env_window_size rt of
             Inl e \<Rightarrow> (Inl e, srv)
           | Inr env_window_size \<Rightarrow>
               (case rt_env_processing_delay rt of
                  Inl e \<Rightarrow> (Inl e, srv)
                | Inr env_processing_delay \<Rightarrow>
                    (let window_size =
                           or_default (case session_config of None \<Rightarrow> None | Some c \<Rightarrow> sc_window_size c)
                             env_window_size;
                         processing_delay =
                           or_default (case session_config of None \<Rightarrow> None | Some c \<Rightarrow> sc_processing_delay c)
                             env_processing_delay;
                         enable_enhanced_agent =
                           or_default
                             (case session_config of None \<Rightarrow> None | Some c \<Rightarrow> sc_enable_enhanced_agent c)
                             (rt_env_enable_enhanced_agent rt)
                     in case map_of (sessions srv) session_id of
                          None \<Rightarrow> (Inl ValueError, srv)
                        | Some engine \<Rightarrow>
                            (case rt_new_manager rt window_size processing_delay enable_enhanced_agent
                                    engine of
                               Inl e \<Rightarrow> (Inl e, srv)
                             | Inr m \<Rightarrow>
                                 (Inr m,
                                  srv\<lparr>sliding_window_managers :=
                                        AList.update session_id m (sliding_window_managers srv)\<rparr>))))))"

definition get_or_create_conflict_resolver ::
  "string \<Rightarrow> 'mgr server \<Rightarrow> (py_exception + unit) \<times> 'mgr server" where
  "get_or_create_conflict_resolver session_id srv =
     (case map_of (conflict_resolvers srv) session_id of
        Some r \<Rightarrow> (Inr r, srv)
      | None \<Rightarrow>
          (case map_of (sliding_window_managers srv) session_id of
             None \<Rightarrow> (Inl ValueError, srv)
           | Some m \<Rightarrow>
               (Inr (), srv\<lparr>conflict_resolvers := AList.update session_id () (conflict_resolvers srv)\<rparr>)))"

subsection \<open>POST /initialize\<close>

record initialize_request =
  req_session_id :: "string option"
  req_character_card :: character_card
  req_world_info :: string
  req_sliding_window :: "sliding_config option"
  req_is_test :: bool
  req_enable_agent :: bool

text \<open>
  The message of the response is an f-string; the two early returns interpolate the node
  and edge counts into it. \<open>InitializeResponse\<close> declares \<open>session_id\<close>, \<open>message\<close> and
  \<open>graph_stats\<close> (default \<open>{}\<close>, here \<open>None\<close>); the other keyword arguments of the two
  early returns are not fields of the model and are dropped by it.
\<close>

datatype init_message =
    UsingExistingSession int int
  | UsingExistingGraph int int
  | SessionInitialized

record initialize_response =
  resp_session_id :: string
  resp_message :: init_message
  resp_graph_stats :: "init_result option"

definition initialize_session ::
  "'mgr runtime \<Rightarrow> initialize_request \<Rightarrow> 'mgr server
     \<Rightarrow> (py_exception + initialize_response) \<times> 'mgr server" where
  "initialize_session rt req srv =
     (let session_id = (case req_session_id req of
                          None \<Rightarrow> rt_uuid4 rt
                        | Some s \<Rightarrow> (if s = [] then rt_uuid4 rt else s))
      in case map_of (sessions srv) session_id of
           Some engine \<Rightarrow>
             (Inr \<lparr>resp_session_id = session_id,
                   resp_message = UsingExistingSession (node_count engine) (edge_count engine),
                   resp_graph_stats = None\<rparr>, srv)
         | None \<Rightarrow>
             (let srv1 = (if \<not> req_is_test req
                          then srv\<lparr>storage_manager :=
                                 snd (register_tavern_character (req_character_card req) session_id
                                        (storage_manager srv))\<rparr>
                          else srv)
              in case get_or_create_session_engine rt session_id (req_is_test req)
                        (req_enable_agent req) srv1 of
                   (Inl e, srv2) \<Rightarrow> (Inl (HTTPException 500), srv2)
                 | (Inr engine, srv2) \<Rightarrow>
                     (if node_count engine > 0
                      then (Inr \<lparr>resp_session_id = session_id,
                                 resp_message = UsingExistingGraph (node_count engine) (edge_count engine),
                                 resp_graph_stats = None\<rparr>, srv2)
                      else (case initialize_from_tavern_data (rt_disk rt) (rt_api_key_set rt) engine
                                   (req_character_card req) (req_world_info req) of
                              (init_res, engine') \<Rightarrow>
                                (let srv3 = srv2\<lparr>sessions := AList.update session_id engine' (sessions srv2)\<rparr>;
                                     srv4 =
                                       (case req_sliding_window req of
                                          None \<Rightarrow> srv3
                                        | Some c \<Rightarrow>
                                            (case get_or_create_sliding_window_manager rt session_id
                                                    (Some c) srv3 of
                                               (Inl e, s) \<Rightarrow> s
                                             | (Inr m, s) \<Rightarrow>
                                                 snd (get_or_create_conflict_resolver session_id s)))
                                 in (Inr \<lparr>resp_session_id = session_id,
                                          resp_message = SessionInitialized,
                                          resp_graph_stats = Some init_res\<rparr>, srv4))))))"

subsection \<open>POST /process\_conversation\<close>

record process_conversation_request =
  pcr_session_id :: string
  pcr_user_input :: string
  pcr_llm_response :: string

text \<open>The response without its \<open>processing_stats\<close>, which echo the request.\<close>

record process_conversation_response =
  pc_message :: string
  turn_sequence :: int
  turn_processed :: bool
  target_processed :: bool
  window_size :: int
  pc_nodes_updated :: int
  pc_edges_added :: int
  conflicts_resolved :: int

definition put_engine :: "string \<Rightarrow> game_engine \<Rightarrow> 'mgr server \<Rightarrow> 'mgr server" where
  "put_engine session_id engine srv =
     srv\<lparr>sessions := AList.update session_id engine (sessions srv)\<rparr>"

text \<open>
  The \<open>except ValueError\<close> branch: extract and apply at once, log the turn, save, and
  answer with the constants.
\<close>

definition process_conversation_fallback ::
  "'mgr runtime \<Rightarrow> process_conversation_request \<Rightarrow> game_engine \<Rightarrow> 'mgr server
     \<Rightarrow> (py_exception + process_conversation_response) \<times> 'mgr server" where
  "process_conversation_fallback rt req engine srv =
     (case extract_updates_from_response (rt_disk rt) engine (pcr_llm_response req)
             (pcr_user_input req) of
        (Inl e, engine1) \<Rightarrow> (Inl (HTTPException 500), put_engine (pcr_session_id req) engine1 srv)
      | (Inr update_results, engine1) \<Rightarrow>
          (let engine2 = engine1\<lparr>memory :=
                           add_conversation (pcr_user_input req) (pcr_llm_response req) (memory engine1)\<rparr>
           in case rt_disk rt SaveAllMemory (knowledge_graph (memory engine2)) of
                Some e \<Rightarrow> (Inl (HTTPException 500), put_engine (pcr_session_id req) engine2 srv)
              | None \<Rightarrow>
                  (Inr \<lparr>pc_message = ''Processed using fallback method'',
                        turn_sequence = 1,
                        turn_processed = True,
                        target_processed = True,
                        window_size = 1,
                        pc_nodes_updated = nodes_updated update_results,
                        pc_edges_added = edges_added update_results,
                        conflicts_resolved = 0\<rparr>,
                   put_engine (pcr_session_id req) engine2 srv)))"

definition process_conversation_windowed ::
  "'mgr runtime \<Rightarrow> process_conversation_request \<Rightarrow> 'mgr \<Rightarrow> game_engine \<Rightarrow> 'mgr server
     \<Rightarrow> (py_exception + process_conversation_response) \<times> 'mgr server" where
  "process_conversation_windowed rt req sliding_manager engine srv =
     (case rt_process_new_conversation rt sliding_manager (pcr_user_input req)
             (pcr_llm_response req) engine of
        Inl e \<Rightarrow> (Inl (HTTPException 500), srv)
      | Inr (result, sliding_manager', engine') \<Rightarrow>
          (let srv1 = (put_engine (pcr_session_id req) engine' srv)
                        \<lparr>sliding_window_managers :=
                           AList.update (pcr_session_id req) sliding_manager'
                             (sliding_window_managers srv)\<rparr>;
               srv2 = (if wr_target_processed result
                       then srv1\<lparr>manager := send_message (rt_net rt) (pcr_session_id req)
                                               ''graph_updated'' (manager srv1)\<rparr>
                       else srv1)
           in (Inr \<lparr>pc_message = ''Conversation processed successfully with sliding window'',
                    turn_sequence = new_turn_sequence result,
                    turn_processed = True,
                    target_processed = wr_target_processed result,
                    window_size = current_turns result,
                    pc_nodes_updated =
                      (case grag_updates result of None \<Rightarrow> 0 | Some u \<Rightarrow> nodes_updated u),
                    pc_edges_added =
                      (case grag_updates result of None \<Rightarrow> 0 | Some u \<Rightarrow> edges_added u),
                    conflicts_resolved = 0\<rparr>, srv2)))"

definition process_conversation ::
  "'mgr runtime \<Rightarrow> process_conversation_request \<Rightarrow> 'mgr server
     \<Rightarrow> (py_exception + process_conversation_response) \<times> 'mgr server" where
  "process_conversation rt req srv =
     (case map_of (sessions srv) (pcr_session_id req) of
        None \<Rightarrow> (Inl (HTTPException 404), srv)
      | Some engine \<Rightarrow>
          (case get_or_create_sliding_window_manager rt (pcr_session_id req) None srv of
             (Inl e, srv1) \<Rightarrow>
               (if e = ValueError then process_conversation_fallback rt req engine srv1
                else (Inl (HTTPException 500), srv1))
           | (Inr sliding_manager, srv1) \<Rightarrow>
               process_conversation_windowed rt req sliding_manager engine srv1))"

subsection \<open>The resets\<close>

record reset_response =
  rr_success :: bool
  rr_cleared_counts :: "(string \<times> int) list"

text \<open>
  The loop over \<open>list(manager.active_connections.keys())\<close> that closes each socket
  (\<open>close()\<close> has the default code 1000; its exception is swallowed), and the
  \<open>clear()\<close> after it.
\<close>

definition close_all_connections :: "connection_manager \<Rightarrow> connection_manager" where
  "close_all_connections mgr =
     (fold (\<lambda>session_id m.
              case map_of (active_connections m) session_id of
                None \<Rightarrow> m
              | Some websocket \<Rightarrow> ws_do (WsClose websocket 1000) m)
        (map fst (active_connections mgr)) mgr)\<lparr>active_connections := []\<rparr>"

definition full_system_reset :: "'mgr runtime \<Rightarrow> 'mgr server \<Rightarrow> reset_response \<times> 'mgr server" where
  "full_system_reset rt srv =
     (let session_count = int (length (sessions srv));
          sliding_window_count = int (length (sliding_window_managers srv));
          conflict_resolver_count = int (length (conflict_resolvers srv));
          init_task_count = int (length (initialization_tasks srv));
          plugin_char_count = int (length (plugin_character_data srv));
          ws_connection_count = int (length (active_connections (manager srv)));
          srv1 = srv\<lparr>sessions := [], sliding_window_managers := [], conflict_resolvers := [],
                      initialization_tasks := [], plugin_character_data := [],
                      manager := close_all_connections (manager srv)\<rparr>
      in case rt_storage_init rt (storage_manager srv1) of
           (Some e, st') \<Rightarrow>
             (\<lparr>rr_success = False, rr_cleared_counts = []\<rparr>, srv1\<lparr>storage_manager := st'\<rparr>)
         | (None, st') \<Rightarrow>
             (\<lparr>rr_success = True,
               rr_cleared_counts =
                 [(''sessions'', session_count),
                  (''sliding_windows'', sliding_window_count),
                  (''conflict_resolvers'', conflict_resolver_count),
                  (''initialization_tasks'', init_task_count),
                  (''plugin_characters'', plugin_char_count),
                  (''websocket_connections'', ws_connection_count),
                  (''total'', session_count + sliding_window_count + conflict_resolver_count +
                     init_task_count + plugin_char_count + ws_connection_count)]\<rparr>,
              srv1\<lparr>storage_manager := st'\<rparr>))"

definition quick_reset :: "'mgr server \<Rightarrow> reset_response \<times> 'mgr server" where
  "quick_reset srv =
     (let session_count = int (length (sessions srv));
          sliding_window_count = int (length (sliding_window_managers srv));
          conflict_resolver_count = int (length (conflict_resolvers srv));
          ws_connection_count = int (length (active_connections (manager srv)));
          plugin_char_count = int (length (plugin_character_data srv));
          srv1 = srv\<lparr>sessions := [], sliding_window_managers := [], conflict_resolvers := [],
                      plugin_character_data := [],
                      manager := close_all_connections (manager srv)\<rparr>
      in (\<lparr>rr_success = True,
           rr_cleared_counts =
             [(''sessions'', session_count),
              (''sliding_windows'', sliding_window_count),
              (''conflict_resolvers'', conflict_resolver_count),
              (''websocket_connections'', ws_connection_count),
              (''plugin_characters'', plugin_char_count),
              (''total'', session_count + sliding_window_count + conflict_resolver_count +
                 ws_connection_count + plugin_char_count)]\<rparr>, srv1))"

subsection \<open>The tavern-mode gate\<close>

record characters_response =
  characters :: "string list"
  total_count :: int

text \<open>\<open>GET /tavern/characters\<close>, handler \<open>list_characters\<close>.\<close>

definition list_characters :: "'mgr server \<Rightarrow> py_exception + characters_response" where
  "list_characters srv =
     (let chars = storage_list_characters (storage_manager srv)
      in Inr \<lparr>characters = chars, total_count = int (length chars)\<rparr>)"

record health_data =
  hd_active_sessions :: int
  hd_agent_enabled_sessions :: int
  hd_local_processor_sessions :: int
  hd_websocket_connections :: int
  hd_total_characters :: int

text \<open>\<open>GET /health\<close>, handler \<open>health_check\<close>.\<close>

definition health_check :: "'mgr server \<Rightarrow> py_exception + health_data" where
  "health_check srv =
     (if \<not> tavern_mode_active srv then Inl (HTTPException 403)
      else (let agent_sessions =
                  int (length (filter (\<lambda>(sid, engine). grag_agent engine \<noteq> None) (sessions srv)))
            in Inr \<lparr>hd_active_sessions = int (length (sessions srv)),
                    hd_agent_enabled_sessions = agent_sessions,
                    hd_local_processor_sessions = int (length (sessions srv)) - agent_sessions,
                    hd_websocket_connections = int (length (active_connections (manager srv))),
                    hd_total_characters = int (length (character_mapping (storage_manager srv)))\<rparr>))"

text \<open>\<open>GET /system/liveness\<close>: \<open>{"ok": True, "version": "1.0.0"}\<close>.\<close>

definition liveness :: "'mgr server \<Rightarrow> py_exception + (bool \<times> string)" where
  "liveness srv = Inr (True, ''1.0.0'')"

text \<open>
  \<open>/ws/tavern/{session_id}\<close>, handler \<open>websocket_endpoint\<close>, up to the message
  \<open>connection_established\<close>; the loop that answers requests is not modelled.
\<close>

definition websocket_endpoint ::
  "net \<Rightarrow> nat \<Rightarrow> string \<Rightarrow> 'mgr server \<Rightarrow> (py_exception + unit) \<times> 'mgr server" where
  "websocket_endpoint nt websocket session_id srv =
     (if \<not> tavern_mode_active srv
      then (if nt (WsAccept websocket)
            then (Inl ConnectionError, srv\<lparr>manager := ws_do (WsAccept websocket) (manager srv)\<rparr>)
            else (if nt (WsClose websocket 1008) then Inl ConnectionError else Inr (),
                  srv\<lparr>manager := ws_do (WsClose websocket 1008)
                                    (ws_do (WsAccept websocket) (manager srv))\<rparr>))
      else (case connect nt session_id websocket (manager srv) of
              (Inl e, mgr1) \<Rightarrow> (Inl e, srv\<lparr>manager := mgr1\<rparr>)
            | (Inr u, mgr1) \<Rightarrow>
                (Inr (),
                 srv\<lparr>manager :=
                       (if nt (WsSend websocket ''connection_established'')
                        then disconnect session_id (Some websocket)
                               (ws_do (WsSend websocket ''connection_established'') mgr1)
                        else ws_do (WsSend websocket ''connection_established'') mgr1)\<rparr>)))"

subsection \<open>POST /sessions/\{session\_id\}/reinitialize\<close>

definition dialogue_world :: string where
  "dialogue_world = map char_of [229, 175, 185, 232, 175, 157, 228, 184, 150, 231, 149, 140 :: nat]"

definition located_in :: string where
  "located_in = map char_of [228, 189, 141, 228, 186, 142 :: nat]"

text \<open>
  The part of \<open>reinitialize_session\<close> from \<open>engine.memory.clear_all()\<close> on, for the
  character name the handler has determined: the graph is cleared and, for a name other
  than the placeholder, a character node, a world node and the edge between them are
  created. The values of the descriptive attributes are left out.
\<close>

definition reinitialize_graph :: "string \<Rightarrow> grag_memory \<Rightarrow> py_exception + (int \<times> int) \<times> grag_memory" where
  "reinitialize_graph character_name m =
     (let m0 = clear_all m
      in if character_name \<noteq> [] \<and> character_name \<noteq> ''Unknown Character''
         then (let m1 = memory_add_or_update_node character_name ''character''
                          [(''source'', AStr ''SillyTavern'')] m0;
                   m2 = memory_add_or_update_node dialogue_world ''location'' [] m1
               in case memory_add_edge character_name dialogue_world located_in m2 of
                    Inl e \<Rightarrow> Inl (HTTPException 500)
                  | Inr m3 \<Rightarrow> Inr ((2, 1), update_state ''tavern_character_name'' character_name m3))
         else Inr ((0, 0), m0))"

section \<open>The sliding window, from the specification\<close>

text \<open>
  Modelled from the spec: the sliding window (section 4.7) and the delayed update
  coordinator (section 4.8); \<open>src/core/sliding_window.py\<close> and
  \<open>src/core/delayed_update.py\<close> are not among the source files. The window is a FIFO
  of turns bounded by its capacity; a push assigns the next sequence number; the target
  is the turn at position \<open>len(window) - 1 - delay\<close> once the window holds
  \<open>delay + 1\<close> turns. Processing a new turn pushes it and, when there is a target that
  has not been processed, extracts and applies the target's updates and marks it
  processed.
\<close>

record turn =
  tn_sequence :: int
  tn_user_text :: string
  tn_assistant_text :: string
  tn_processed :: bool

record window_manager =
  wm_capacity :: nat
  wm_delay :: nat
  wm_turns :: "turn list"
  wm_next_sequence :: int

definition spec_new_manager ::
  "int \<Rightarrow> int \<Rightarrow> bool \<Rightarrow> game_engine \<Rightarrow> py_exception + window_manager" where
  "spec_new_manager window_sz processing_delay enable_enhanced_agent engine =
     Inr \<lparr>wm_capacity = nat window_sz, wm_delay = nat processing_delay, wm_turns = [],
          wm_next_sequence = 1\<rparr>"

definition window_push :: "string \<Rightarrow> string \<Rightarrow> window_manager \<Rightarrow> window_manager" where
  "window_push user_text assistant_text w =
     (let t = \<lparr>tn_sequence = wm_next_sequence w, tn_user_text = user_text,
                tn_assistant_text = assistant_text, tn_processed = False\<rparr>;
          ts = wm_turns w @ [t]
      in w\<lparr>wm_turns := drop (length ts - wm_capacity w) ts,
           wm_next_sequence := wm_next_sequence w + 1\<rparr>)"

definition window_target :: "window_manager \<Rightarrow> nat option" where
  "window_target w =
     (if wm_delay w + 1 \<le> length (wm_turns w)
      then Some (length (wm_turns w) - 1 - wm_delay w) else None)"

definition spec_process_new_conversation ::
  "disk \<Rightarrow> window_manager \<Rightarrow> string \<Rightarrow> string \<Rightarrow> game_engine
     \<Rightarrow> py_exception + (window_result \<times> window_manager \<times> game_engine)" where
  "spec_process_new_conversation dk w user_text assistant_text engine =
     (let new_sequence = wm_next_sequence w;
          w1 = window_push user_text assistant_text w;
          unprocessed = \<lparr>new_turn_sequence = new_sequence, wr_target_processed = False,
                         current_turns = int (length (wm_turns w1)), grag_updates = None\<rparr>
      in case window_target w1 of
           None \<Rightarrow> Inr (unprocessed, w1, engine)
         | Some i \<Rightarrow>
             (let tgt = wm_turns w1 ! i
              in if tn_processed tgt then Inr (unprocessed, w1, engine)
                 else (case extract_updates_from_response dk engine (tn_assistant_text tgt)
                              (tn_user_text tgt) of
                         (Inl e, engine') \<Rightarrow> Inl e
                       | (Inr counts, engine') \<Rightarrow>
                           Inr (unprocessed\<lparr>wr_target_processed := True, grag_updates := Some counts\<rparr>,
                                w1\<lparr>wm_turns := (wm_turns w1)[i := tgt\<lparr>tn_processed := True\<rparr>]\<rparr>,
                                engine'))))"

section \<open>Concrete inputs\<close>

text \<open>
  The inputs the examples below are evaluated at: an empty graph and memory, an engine
  without an agent whose local processor finds nothing, and a runtime in which no write
  and no socket call fails, no environment variable is set and the sliding window is the
  one of the specification.
\<close>

definition empty_graph :: kgraph where
  "empty_graph = \<lparr>nodes = [], edges = []\<rparr>"

definition empty_memory :: grag_memory where
  "empty_memory = \<lparr>knowledge_graph = empty_graph, conversation_history = [], memory_state = [],
                    graph_save_path = None\<rparr>"

definition empty_delta :: delta where
  "empty_delta = \<lparr>nodes_to_update = [], edges_to_add = [], nodes_to_delete = [], edges_to_delete = []\<rparr>"

definition quiet_disk :: disk where
  "quiet_disk = (\<lambda>c g. None)"

definition plain_engine :: "grag_memory \<Rightarrow> game_engine" where
  "plain_engine m = \<lparr>memory = m, rpg_processor = (\<lambda>s. Inr empty_delta),
                     validation_layer = (\<lambda>d g. Inr (Some d)), grag_agent = None\<rparr>"

definition empty_storage :: storage where
  "empty_storage = \<lparr>character_mapping = [], active_sessions = []\<rparr>"

definition quiet_runtime :: "window_manager runtime" where
  "quiet_runtime =
     \<lparr>rt_disk = quiet_disk,
      rt_net = (\<lambda>c. False),
      rt_api_key_set = False,
      rt_uuid4 = ''00000000-0000-4000-8000-000000000000'',
      rt_env_window_size = Inr 4,
      rt_env_processing_delay = Inr 1,
      rt_env_enable_enhanced_agent = True,
      rt_load_memory = (\<lambda>st sid is_test. Inr empty_memory),
      rt_rpg_processor = (\<lambda>s. Inr empty_delta),
      rt_validation_layer = (\<lambda>d g. Inr (Some d)),
      rt_make_agent = None,
      rt_new_manager = spec_new_manager,
      rt_process_new_conversation = spec_process_new_conversation quiet_disk,
      rt_storage_init = (\<lambda>st. (None, empty_storage))\<rparr>"

definition empty_server :: "window_manager server" where
  "empty_server =
     \<lparr>sessions = [], session_creation_locks = [], sliding_window_managers = [],
      conflict_resolvers = [], initialization_tasks = [], plugin_character_data = [],
      pending_coordinated_reinits = [], tavern_mode_active = False,
      manager = \<lparr>active_connections = [], ws_log = []\<rparr>,
      storage_manager = empty_storage\<rparr>"

section \<open>Properties\<close>

text \<open>
  The normalization as the specification words it: lower-case the name and replace
  spaces by underscores.
\<close>

definition spec_normalize :: "string \<Rightarrow> string" where
  "spec_normalize name = map (\<lambda>c. if c = CHR '' '' then CHR ''_'' else c) (map py_lower_char name)"

definition spec_canonical_id :: "string \<Rightarrow> string \<Rightarrow> string" where
  "spec_canonical_id entity_type name = entity_type @ ''_'' @ spec_normalize name"

text \<open>The normalization with the surrounding whitespace stripped first.\<close>

definition canonical_id :: "string \<Rightarrow> string \<Rightarrow> string" where
  "canonical_id entity_type name = entity_type @ ''_'' @ spec_normalize (py_strip name)"

definition node_name :: "kg_node \<Rightarrow> string option" where
  "node_name n = (case map_of (node_attrs n) ''name'' of Some (AStr nm) \<Rightarrow> Some nm | _ \<Rightarrow> None)"

text \<open>
  Id canonicality of a graph: every node has a name, and its id is the canonical id of
  its type and name; once as the specification states it, once with the strip.
\<close>

definition spec_id_canonical :: "kgraph \<Rightarrow> bool" where
  "spec_id_canonical g =
     list_all (\<lambda>(nid, n). case node_name n of
                             None \<Rightarrow> False
                           | Some nm \<Rightarrow> nid = spec_canonical_id (node_type n) nm) (nodes g)"

definition id_canonical :: "kgraph \<Rightarrow> bool" where
  "id_canonical g =
     list_all (\<lambda>(nid, n). case node_name n of
                             None \<Rightarrow> False
                           | Some nm \<Rightarrow> nid = canonical_id (node_type n) nm) (nodes g)"

text \<open>Every edge of a graph joins two of its nodes.\<close>

definition wf_graph :: "kgraph \<Rightarrow> bool" where
  "wf_graph g = list_all (\<lambda>(s, t, r). has_node g s \<and> has_node g t) (edges g)"

definition cfg0 :: llm_config where
  "cfg0 = \<lparr>cfg_model = ''m'', cfg_max_tokens = 100, cfg_temperature = 0, cfg_request_timeout = 30\<rparr>"

definition kw0 :: chat_kwargs where
  "kw0 = \<lparr>kw_model = None, kw_max_tokens = None, kw_temperature = None\<rparr>"

definition timeout_provider :: provider where
  "timeout_provider = (\<lambda>n r. Inl TimeoutError)"

definition refused_provider :: provider where
  "refused_provider = (\<lambda>n r. Inl ConnectionError)"

definition busy_server :: "window_manager server" where
  "busy_server =
     empty_server\<lparr>initialization_tasks :=
                    [(''t1'', \<lparr>task_status = ''completed'', task_session_id = Some ''s1''\<rparr>)],
                  manager := \<lparr>active_connections = [(''s1'', 7)], ws_log = []\<rparr>\<rparr>"

definition tavern_off :: "window_manager server" where
  "tavern_off =
     empty_server\<lparr>storage_manager :=
                    \<lparr>character_mapping = [(''Seraphina'', ''Seraphina'')], active_sessions = []\<rparr>\<rparr>"

definition plain_node :: "string \<Rightarrow> kg_node" where
  "plain_node ty = \<lparr>node_type = ty, node_attrs = [], is_deleted = False, deletion_reason = None\<rparr>"

definition edge_graph :: kgraph where
  "edge_graph =
     \<lparr>nodes = [(''a'', plain_node ''character''), (''b'', plain_node ''item''),
               (''c'', plain_node ''item'')],
      edges = [(''a'', ''b'', ''owns''), (''a'', ''c'', ''owns'')]\<rparr>"

definition failing_agent :: grag_update_agent where
  "failing_agent = \<lparr>analyze_conversation_for_updates = (\<lambda>u r g c. Inl TimeoutError),
     convert_to_execution_format = (\<lambda>a. Inl ValueError),
     agent_llm_client = None\<rparr>"

definition one_node_delta :: delta where
  "one_node_delta = empty_delta\<lparr>nodes_to_update :=
      [\<lparr>nu_node_id = ''item_sword'', nu_type = Some ''item'', nu_attributes = Some [(''name'', AStr ''Sword'')]\<rparr>]\<rparr>"

definition failing_engine :: game_engine where
  "failing_engine = \<lparr>memory = empty_memory, rpg_processor = (\<lambda>s. Inr one_node_delta),
     validation_layer = (\<lambda>d g. Inr (Some d)), grag_agent = Some failing_agent\<rparr>"

definition one_session :: "window_manager server" where
  "one_session = empty_server\<lparr>sessions := [(''s1'', plain_engine empty_memory)]\<rparr>"

definition turn_req :: "string \<Rightarrow> string \<Rightarrow> process_conversation_request" where
  "turn_req u r = \<lparr>pcr_session_id = ''s1'', pcr_user_input = u, pcr_llm_response = r\<rparr>"

definition bad_env_runtime :: "window_manager runtime" where
  "bad_env_runtime = quiet_runtime\<lparr>rt_env_window_size := Inl ValueError\<rparr>"

definition alice_card :: character_card where
  "alice_card = \<lparr>card_name = Some ''Alice'', card_description = None, card_personality = None,
     card_scenario = None, card_first_mes = None, card_mes_example = None, card_world_info = None\<rparr>"

definition saved_memory :: grag_memory where
  "saved_memory = empty_memory\<lparr>knowledge_graph :=
      \<lparr>nodes = [(''character_bob'', plain_node ''character'')], edges = []\<rparr>,
      conversation_history := [(''hello'', ''hi'')]\<rparr>"

definition restart_runtime :: "window_manager runtime" where
  "restart_runtime = quiet_runtime\<lparr>rt_load_memory := (\<lambda>st sid is_test. Inr saved_memory)\<rparr>"

definition init_req :: "string \<Rightarrow> initialize_request" where
  "init_req sid = \<lparr>req_session_id = Some sid, req_character_card = alice_card, req_world_info = [],
     req_sliding_window = None, req_is_test = False, req_enable_agent = False\<rparr>"

definition story_graph :: kgraph where
  "story_graph =
     \<lparr>nodes = [(''character_hero'', plain_node ''character''),
               (''character_npc_a'', plain_node ''character''),
               (''item_amulet'', plain_node ''item'')],
      edges = [(''character_hero'', ''item_amulet'', ''owns''),
               (''character_npc_a'', ''character_hero'', ''enemy_of'')]\<rparr>"

definition death_entry :: node_deletion where
  "death_entry = \<lparr>nd_node_id = Some ''character_npc_a'', nd_deletion_type = Some ''death'',
                   nd_reason = Some ''slain''\<rparr>"

definition lost_entry :: node_deletion where
  "lost_entry = \<lparr>nd_node_id = Some ''item_amulet'', nd_deletion_type = Some ''lost'',
                  nd_reason = None\<rparr>"

definition story_delta :: delta where
  "story_delta = empty_delta\<lparr>nodes_to_delete := [death_entry, lost_entry]\<rparr>"

text \<open>
  A node is gone from a graph when it is absent and no edge is incident to it; it is
  soft-deleted when it is present with \<open>is_deleted\<close> set.
\<close>

definition gone :: "string \<Rightarrow> kgraph \<Rightarrow> bool" where
  "gone nid g = (get_node g nid = None \<and> (\<forall>e \<in> set (edges g). \<not> incident nid e))"

definition soft_deleted :: "string \<Rightarrow> kgraph \<Rightarrow> bool" where
  "soft_deleted nid g = (case get_node g nid of None \<Rightarrow> False | Some n \<Rightarrow> is_deleted n)"

section \<open>Theorems\<close>

subsection \<open>The LLM client\<close>

text \<open>
  Claim C7, as the code has it: \<open>chat\<close> hands the configured request timeout to the
  provider and calls the provider once, with no retry; whatever the provider raises (a
  timeout, a transport error, anything else) is caught and comes back as the fixed
  apology text, an ordinary text result. The caller never sees a failure.
\<close>

theorem chat_failure_becomes_text:
  "(\<exists>txt. fst (chat cfg prov messages kwargs calls) = Inr txt) \<and>
   snd (chat cfg prov messages kwargs calls) = Suc calls \<and>
   rq_timeout (build_request cfg messages kwargs) = cfg_request_timeout cfg \<and>
   (\<forall>e. prov calls (build_request cfg messages kwargs) = Inl e \<longrightarrow>
        fst (chat cfg prov messages kwargs calls) = Inr apology)"
  by (simp add: chat_def build_request_def split: sum.split)

theorem chat_failure_becomes_text_witness:
  "timeout_provider 0 (build_request cfg0 [(User, ''hi'')] kw0) = Inl TimeoutError \<and>
   fst (chat cfg0 timeout_provider [(User, ''hi'')] kw0 0) = Inr apology \<and>
   snd (chat cfg0 timeout_provider [(User, ''hi'')] kw0 0) = 1 \<and>
   rq_timeout (build_request cfg0 [(User, ''hi'')] kw0) = 30"
  using chat_failure_becomes_text [of cfg0 timeout_provider "[(User, ''hi'')]" kw0 0]
  by (simp add: timeout_provider_def cfg0_def)

text \<open>
  Claim C7 as stated fails: on a timeout the call does not fail with a timeout error,
  and on a transport error it does not fail with a transport error; both return the
  apology text.
\<close>

theorem chat_timeout_counterexample:
  "fst (chat cfg0 timeout_provider [(User, ''hi'')] kw0 0) \<noteq> Inl TimeoutError \<and>
   fst (chat cfg0 refused_provider [(User, ''hi'')] kw0 0) \<noteq> Inl ConnectionError \<and>
   fst (chat cfg0 timeout_provider [(User, ''hi'')] kw0 0) = Inr apology \<and>
   fst (chat cfg0 refused_provider [(User, ''hi'')] kw0 0) = Inr apology"
  by (simp add: chat_def timeout_provider_def refused_provider_def)

subsection \<open>The connection manager\<close>

text \<open>
  Claim C2: when a socket connects for a session that another socket is bound to, the
  old socket is closed with code 1012 while the table still holds it, and only then is
  the new socket stored; a later disconnect of the old socket leaves the new binding in
  place. A disconnect of a socket removes the binding exactly when the stored entry is
  that socket.
\<close>

theorem connection_replacement:
  assumes bound: "map_of (active_connections mgr) session_id = Some old_ws"
    and other: "old_ws \<noteq> websocket"
    and accepted: "\<not> nt (WsAccept websocket)"
  shows "fst (connect nt session_id websocket mgr) = Inr () \<and>
         ws_log (close_replaced session_id websocket (ws_do (WsAccept websocket) mgr)) =
           ws_log mgr @ [WsAccept websocket, WsClose old_ws 1012] \<and>
         map_of (active_connections (close_replaced session_id websocket (ws_do (WsAccept websocket) mgr)))
           session_id = Some old_ws \<and>
         snd (connect nt session_id websocket mgr) =
           store_connection session_id websocket
             (close_replaced session_id websocket (ws_do (WsAccept websocket) mgr)) \<and>
         ws_log (snd (connect nt session_id websocket mgr)) =
           ws_log mgr @ [WsAccept websocket, WsClose old_ws 1012] \<and>
         map_of (active_connections (snd (connect nt session_id websocket mgr))) session_id =
           Some websocket \<and>
         map_of (active_connections
                   (disconnect session_id (Some old_ws) (snd (connect nt session_id websocket mgr))))
           session_id = Some websocket \<and>
         (\<forall>m w. map_of (active_connections (disconnect session_id (Some w) m)) session_id =
                  (if map_of (active_connections m) session_id = Some w then None
                   else map_of (active_connections m) session_id))"
  using assms
  by (auto simp: connect_def close_replaced_def ws_do_def store_connection_def disconnect_def
        AList.update_conv' AList.delete_conv')

theorem connection_replacement_witness:
  "map_of (active_connections \<lparr>active_connections = [(''s1'', 1)], ws_log = []\<rparr>) ''s1'' = Some 1 \<and>
   fst (connect (\<lambda>c. False) ''s1'' 2 \<lparr>active_connections = [(''s1'', 1)], ws_log = []\<rparr>) = Inr () \<and>
   ws_log (snd (connect (\<lambda>c. False) ''s1'' 2 \<lparr>active_connections = [(''s1'', 1)], ws_log = []\<rparr>)) =
     [WsAccept 2, WsClose 1 1012] \<and>
   map_of (active_connections
             (snd (connect (\<lambda>c. False) ''s1'' 2 \<lparr>active_connections = [(''s1'', 1)], ws_log = []\<rparr>)))
     ''s1'' = Some 2 \<and>
   map_of (active_connections
             (disconnect ''s1'' (Some 1)
                (snd (connect (\<lambda>c. False) ''s1'' 2 \<lparr>active_connections = [(''s1'', 1)], ws_log = []\<rparr>))))
     ''s1'' = Some 2"
  using connection_replacement
    [of "\<lparr>active_connections = [(''s1'', 1)], ws_log = []\<rparr>" "''s1''" 1 2 "\<lambda>c. False"]
  by (simp add: connect_def close_replaced_def ws_do_def store_connection_def disconnect_def)

subsection \<open>The resets\<close>

lemma fold_close_log:
  "set ks \<subseteq> fst ` set (active_connections mgr) \<Longrightarrow>
   fold (\<lambda>session_id m.
           case map_of (active_connections m) session_id of
             None \<Rightarrow> m
           | Some websocket \<Rightarrow> ws_do (WsClose websocket 1000) m) ks mgr =
     mgr\<lparr>ws_log := ws_log mgr @
            map (\<lambda>sid. WsClose (the (map_of (active_connections mgr) sid)) 1000) ks\<rparr>"
proof (induction ks arbitrary: mgr)
  case Nil
  then show ?case by simp
next
  case (Cons k ks)
  from Cons.prems have "k \<in> fst ` set (active_connections mgr)" by simp
  then obtain w where w: "map_of (active_connections mgr) k = Some w"
    by (metis domD dom_map_of_conv_image_fst)
  have "set ks \<subseteq> fst ` set (active_connections (ws_do (WsClose w 1000) mgr))"
    using Cons.prems by (simp add: ws_do_def)
  from Cons.IH [OF this] w show ?case by (simp add: ws_do_def)
qed

lemma close_all_connections_log:
  "close_all_connections mgr =
     \<lparr>active_connections = [],
      ws_log = ws_log mgr @
        map (\<lambda>sid. WsClose (the (map_of (active_connections mgr) sid)) 1000)
          (map fst (active_connections mgr))\<rparr>"
  unfolding close_all_connections_def
  by (subst fold_close_log) simp_all

text \<open>
  Claim C9, as the code has it: both resets close every bound socket (one close call per
  binding, then an empty table) and empty the sessions, the sliding-window managers, the
  conflict resolvers and the plugin character data. The states they leave differ in two
  places: the full reset also empties the table of initialization tasks and
  re-initializes the storage manager; the quick reset leaves both as they were.
\<close>

theorem quick_reset_keeps_init_tasks:
  "snd (quick_reset srv) =
     (snd (full_system_reset rt srv))\<lparr>initialization_tasks := initialization_tasks srv,
                                       storage_manager := storage_manager srv\<rparr> \<and>
   sessions (snd (quick_reset srv)) = [] \<and>
   sliding_window_managers (snd (quick_reset srv)) = [] \<and>
   conflict_resolvers (snd (quick_reset srv)) = [] \<and>
   plugin_character_data (snd (quick_reset srv)) = [] \<and>
   initialization_tasks (snd (quick_reset srv)) = initialization_tasks srv \<and>
   initialization_tasks (snd (full_system_reset rt srv)) = [] \<and>
   storage_manager (snd (full_system_reset rt srv)) =
     snd (rt_storage_init rt (storage_manager srv)) \<and>
   manager (snd (quick_reset srv)) = manager (snd (full_system_reset rt srv)) \<and>
   manager (snd (quick_reset srv)) =
     \<lparr>active_connections = [],
      ws_log = ws_log (manager srv) @
        map (\<lambda>sid. WsClose (the (map_of (active_connections (manager srv)) sid)) 1000)
          (map fst (active_connections (manager srv)))\<rparr>"
  by (simp add: quick_reset_def full_system_reset_def Let_def close_all_connections_log
        split: prod.split option.split)

text \<open>
  Claim C9 as stated fails: with one initialization task in the table, the state after
  the quick reset is not the state after the full reset with the storage put back; the
  task is still there after the quick reset and gone after the full one.
\<close>

theorem quick_reset_counterexample:
  "snd (quick_reset busy_server) \<noteq>
     (snd (full_system_reset quiet_runtime busy_server))
       \<lparr>storage_manager := storage_manager busy_server\<rparr> \<and>
   initialization_tasks (snd (quick_reset busy_server)) =
     [(''t1'', \<lparr>task_status = ''completed'', task_session_id = Some ''s1''\<rparr>)] \<and>
   initialization_tasks (snd (full_system_reset quiet_runtime busy_server)) = []"
  by (simp add: quick_reset_def full_system_reset_def Let_def busy_server_def empty_server_def
        quiet_runtime_def split: prod.split option.split)

subsection \<open>The tavern-mode gate\<close>

text \<open>
  Claim C1 at \<open>GET /tavern/characters\<close>: with tavern mode off the handler answers with
  the registered characters, where the claim has 403; \<open>GET /health\<close> on the same state
  is rejected with 403.
\<close>

theorem list_characters_ungated:
  "tavern_mode_active tavern_off = False \<and>
   list_characters tavern_off = Inr \<lparr>characters = [''Seraphina''], total_count = 1\<rparr> \<and>
   health_check tavern_off = Inl (HTTPException 403)"
  by (simp add: tavern_off_def empty_server_def list_characters_def health_check_def
        storage_list_characters_def)

subsection \<open>Deletion events\<close>

text \<open>
  Claim C6 at an entry whose target alone is the wildcard: on a graph with two
  \<open>owns\<close> edges from \<open>a\<close>, the entry (\<open>a\<close>, \<open>*\<close>, \<open>owns\<close>) deletes nothing,
  since the wildcard branch is entered only for a wildcard source or relationship; the
  entry (\<open>a\<close>, \<open>*\<close>, \<open>*\<close>) enters it and deletes both edges.
\<close>

theorem target_wildcard_deletes_nothing:
  "(case process_deletion_events
      (empty_delta\<lparr>edges_to_delete :=
         [\<lparr>ed_source = Some ''a'', ed_target = Some ''*'', ed_relationship = Some ''owns'',
           ed_reason = None\<rparr>]\<rparr>)
      (empty_memory\<lparr>knowledge_graph := edge_graph\<rparr>) of
      (m, nodes_del, edges_del) \<Rightarrow> (edges (knowledge_graph m), edges_del)) =
     ([(''a'', ''b'', ''owns''), (''a'', ''c'', ''owns'')], 0) \<and>
   (case process_deletion_events
      (empty_delta\<lparr>edges_to_delete :=
         [\<lparr>ed_source = Some ''a'', ed_target = Some ''*'', ed_relationship = Some ''*'',
           ed_reason = None\<rparr>]\<rparr>)
      (empty_memory\<lparr>knowledge_graph := edge_graph\<rparr>) of
      (m, nodes_del, edges_del) \<Rightarrow> (edges (knowledge_graph m), edges_del)) =
     ([], 2)"
  by (simp add: process_deletion_events_def process_edge_deletion_def empty_delta_def
        empty_memory_def edge_graph_def memory_delete_edge_def kg_delete_edge_def
        edge_matches_def remove_matched_edge_def)

subsection \<open>Per-turn extraction\<close>

lemma local_processor_never_raises:
  "\<exists>counts. fst (extract_with_local_processor dk eng r) = Inr counts"
  by (simp add: extract_with_local_processor_def split: prod.split sum.split)

lemma agent_never_raises:
  "\<exists>counts. fst (extract_with_agent dk eng agent u r) = Inr counts"
  using local_processor_never_raises
  by (simp add: extract_with_agent_def split: prod.split sum.split)

text \<open>
  Claim C5: \<open>extract_updates_from_response\<close> always returns counters and never raises.
  Without an agent it is the local processor on the same reply; when the agent's attempt
  raises (in the analysis, the conversion, the validation or the application) or the
  analysis reports an error, the result is the local processor's on the same reply, run on
  the memory as the attempt left it; and when the local processor's own attempt raises,
  the result is the zero counters.
\<close>

theorem extract_updates_never_raises:
  "(\<exists>counts. fst (extract_updates_from_response dk eng r u) = Inr counts) \<and>
   (grag_agent eng = None \<longrightarrow>
      extract_updates_from_response dk eng r u = extract_with_local_processor dk eng r) \<and>
   (\<forall>agent e. grag_agent eng = Some agent \<and> fst (agent_body dk eng agent u r) = Inl e \<longrightarrow>
      extract_updates_from_response dk eng r u =
        extract_with_local_processor dk (snd (agent_body dk eng agent u r)) r) \<and>
   (\<forall>agent e. grag_agent eng = Some agent \<and>
        analyze_conversation_for_updates agent u r (knowledge_graph (memory eng))
          (get_recent_conversation_context (memory eng)) = Inl e \<longrightarrow>
      extract_updates_from_response dk eng r u = extract_with_local_processor dk eng r) \<and>
   (\<forall>agent msg. grag_agent eng = Some agent \<and>
        analyze_conversation_for_updates agent u r (knowledge_graph (memory eng))
          (get_recent_conversation_context (memory eng)) = Inr (AnalysisError msg) \<longrightarrow>
      extract_updates_from_response dk eng r u = extract_with_local_processor dk eng r) \<and>
   (\<forall>e. fst (local_processor_body dk eng r) = Inl e \<longrightarrow>
      fst (extract_with_local_processor dk eng r) = Inr zero_counts)"
proof (intro conjI allI impI)
  show "\<exists>counts. fst (extract_updates_from_response dk eng r u) = Inr counts"
    using local_processor_never_raises agent_never_raises
    by (simp add: extract_updates_from_response_def split: option.split)
next
  assume "grag_agent eng = None"
  then show "extract_updates_from_response dk eng r u = extract_with_local_processor dk eng r"
    by (simp add: extract_updates_from_response_def)
next
  fix agent e
  assume "grag_agent eng = Some agent \<and> fst (agent_body dk eng agent u r) = Inl e"
  then show "extract_updates_from_response dk eng r u =
        extract_with_local_processor dk (snd (agent_body dk eng agent u r)) r"
    by (cases "agent_body dk eng agent u r")
       (simp add: extract_updates_from_response_def extract_with_agent_def)
next
  fix agent e
  assume "grag_agent eng = Some agent \<and>
        analyze_conversation_for_updates agent u r (knowledge_graph (memory eng))
          (get_recent_conversation_context (memory eng)) = Inl e"
  then show "extract_updates_from_response dk eng r u = extract_with_local_processor dk eng r"
    by (simp add: extract_updates_from_response_def extract_with_agent_def agent_body_def)
next
  fix agent msg
  assume a: "grag_agent eng = Some agent \<and>
        analyze_conversation_for_updates agent u r (knowledge_graph (memory eng))
          (get_recent_conversation_context (memory eng)) = Inr (AnalysisError msg)"
  obtain c where c: "fst (extract_with_local_processor dk eng r) = Inr c"
    using local_processor_never_raises by blast
  from a c show "extract_updates_from_response dk eng r u = extract_with_local_processor dk eng r"
    by (cases "extract_with_local_processor dk eng r")
       (simp add: extract_updates_from_response_def extract_with_agent_def agent_body_def)
next
  fix e
  assume "fst (local_processor_body dk eng r) = Inl e"
  then show "fst (extract_with_local_processor dk eng r) = Inr zero_counts"
    by (cases "local_processor_body dk eng r") (simp add: extract_with_local_processor_def)
qed

theorem extract_updates_never_raises_witness:
  "grag_agent failing_engine = Some failing_agent \<and>
   fst (agent_body quiet_disk failing_engine failing_agent ''hi'' ''A sword.'') = Inl TimeoutError \<and>
   fst (extract_updates_from_response quiet_disk failing_engine ''A sword.'' ''hi'') =
     Inr \<lparr>nodes_updated = 1, edges_added = 0, nodes_deleted = 0, edges_deleted = 0\<rparr> \<and>
   map fst (nodes (knowledge_graph (memory (snd (extract_updates_from_response quiet_disk failing_engine ''A sword.'' ''hi''))))) = [''item_sword''] \<and>
   grag_agent (plain_engine empty_memory) = None \<and>
   fst (extract_updates_from_response quiet_disk (plain_engine empty_memory) ''A sword.'' ''hi'') = Inr zero_counts \<and>
   fst (local_processor_body quiet_disk (failing_engine\<lparr>rpg_processor := (\<lambda>s. Inl ValueError)\<rparr>) ''x'') = Inl ValueError \<and>
   fst (extract_with_local_processor quiet_disk (failing_engine\<lparr>rpg_processor := (\<lambda>s. Inl ValueError)\<rparr>) ''x'') = Inr zero_counts"
  using extract_updates_never_raises [of quiet_disk failing_engine "''A sword.''" "''hi''"]
    extract_updates_never_raises [of quiet_disk "plain_engine empty_memory" "''A sword.''" "''hi''"]
    extract_updates_never_raises [of quiet_disk "failing_engine\<lparr>rpg_processor := (\<lambda>s. Inl ValueError)\<rparr>" "''x''" "''hi''"]
  by (simp add: failing_engine_def failing_agent_def agent_body_def plain_engine_def
      extract_with_local_processor_def local_processor_body_def apply_validated_updates_def
      process_deletion_events_def one_node_delta_def empty_delta_def empty_memory_def empty_graph_def
      apply_node_update_def has_node_def get_node_def memory_add_or_update_node_def kg_add_or_update_node_def
      dict_update_def save_and_sync_def quiet_disk_def zero_counts_def
      extract_updates_from_response_def extract_with_agent_def)

subsection \<open>POST /process\_conversation\<close>

lemma fallback_constants:
  "fst (process_conversation_fallback rt req engine srv) = Inr resp \<Longrightarrow>
   turn_sequence resp = 1 \<and> turn_processed resp \<and> target_processed resp \<and> window_size resp = 1"
  by (auto simp: process_conversation_fallback_def Let_def split: prod.splits sum.splits option.splits)

text \<open>
  Claim C10, as the code has it: for a session that has an engine and no sliding-window
  manager, the handler first creates a manager from the default settings and, when that
  succeeds, takes the windowed path: the sequence number, the target flag and the window
  size of the response are the manager's, and the manager is stored. The fallback path is
  taken when creating the manager raises ValueError (for instance when
  \<open>SLIDING_WINDOW_SIZE\<close> is not an integer); a response of the fallback path has the
  constants 1, true, true and 1.
\<close>

theorem process_conversation_without_manager:
  assumes eng: "map_of (sessions srv) (pcr_session_id req) = Some engine"
    and nomgr: "map_of (sliding_window_managers srv) (pcr_session_id req) = None"
  shows
   "(\<forall>w d m. rt_env_window_size rt = Inr w \<and> rt_env_processing_delay rt = Inr d \<and>
        rt_new_manager rt w d (rt_env_enable_enhanced_agent rt) engine = Inr m \<longrightarrow>
        process_conversation rt req srv =
          process_conversation_windowed rt req m engine
            (srv\<lparr>sliding_window_managers :=
                   AList.update (pcr_session_id req) m (sliding_window_managers srv)\<rparr>)) \<and>
    (\<forall>m srv1 res m' engine'.
        rt_process_new_conversation rt m (pcr_user_input req) (pcr_llm_response req) engine =
          Inr (res, m', engine') \<longrightarrow>
        (\<exists>resp. fst (process_conversation_windowed rt req m engine srv1) = Inr resp \<and>
           turn_sequence resp = new_turn_sequence res \<and>
           turn_processed resp \<and>
           target_processed resp = wr_target_processed res \<and>
           window_size resp = current_turns res) \<and>
        map_of (sliding_window_managers (snd (process_conversation_windowed rt req m engine srv1)))
          (pcr_session_id req) = Some m') \<and>
    (fst (get_or_create_sliding_window_manager rt (pcr_session_id req) None srv) = Inl ValueError \<longrightarrow>
        process_conversation rt req srv = process_conversation_fallback rt req engine srv) \<and>
    (\<forall>m. fst (get_or_create_sliding_window_manager rt (pcr_session_id req) None srv) = Inr m \<longrightarrow>
        process_conversation rt req srv =
          process_conversation_windowed rt req m engine
            (snd (get_or_create_sliding_window_manager rt (pcr_session_id req) None srv))) \<and>
    (\<forall>srv1 resp. fst (process_conversation_fallback rt req engine srv1) = Inr resp \<longrightarrow>
        turn_sequence resp = 1 \<and> turn_processed resp \<and> target_processed resp \<and>
        window_size resp = 1)"
proof (intro conjI allI impI)
  fix w d m
  assume "rt_env_window_size rt = Inr w \<and> rt_env_processing_delay rt = Inr d \<and>
        rt_new_manager rt w d (rt_env_enable_enhanced_agent rt) engine = Inr m"
  with eng nomgr show "process_conversation rt req srv =
          process_conversation_windowed rt req m engine
            (srv\<lparr>sliding_window_managers :=
                   AList.update (pcr_session_id req) m (sliding_window_managers srv)\<rparr>)"
    by (simp add: process_conversation_def get_or_create_sliding_window_manager_def or_default_def)
next
  fix m srv1 res m' engine'
  assume r: "rt_process_new_conversation rt m (pcr_user_input req) (pcr_llm_response req) engine =
          Inr (res, m', engine')"
  then show "\<exists>resp. fst (process_conversation_windowed rt req m engine srv1) = Inr resp \<and>
           turn_sequence resp = new_turn_sequence res \<and>
           turn_processed resp \<and>
           target_processed resp = wr_target_processed res \<and>
           window_size resp = current_turns res"
    by (simp add: process_conversation_windowed_def Let_def)
  from r show "map_of (sliding_window_managers (snd (process_conversation_windowed rt req m engine srv1)))
          (pcr_session_id req) = Some m'"
    by (simp add: process_conversation_windowed_def Let_def put_engine_def AList.update_conv')
next
  assume "fst (get_or_create_sliding_window_manager rt (pcr_session_id req) None srv) = Inl ValueError"
  moreover have "snd (get_or_create_sliding_window_manager rt (pcr_session_id req) None srv) = srv"
    if "fst (get_or_create_sliding_window_manager rt (pcr_session_id req) None srv) = Inl e" for e
    using that
    by (auto simp: get_or_create_sliding_window_manager_def Let_def split: option.splits sum.splits)
  ultimately show "process_conversation rt req srv = process_conversation_fallback rt req engine srv"
    using eng
    by (cases "get_or_create_sliding_window_manager rt (pcr_session_id req) None srv")
       (simp add: process_conversation_def)
next
  fix m
  assume "fst (get_or_create_sliding_window_manager rt (pcr_session_id req) None srv) = Inr m"
  then show "process_conversation rt req srv =
          process_conversation_windowed rt req m engine
            (snd (get_or_create_sliding_window_manager rt (pcr_session_id req) None srv))"
    using eng
    by (cases "get_or_create_sliding_window_manager rt (pcr_session_id req) None srv")
       (simp add: process_conversation_def)
next
  fix srv1 resp
  assume a: "fst (process_conversation_fallback rt req engine srv1) = Inr resp"
  from fallback_constants [OF a]
  show "turn_sequence resp = 1" "turn_processed resp" "target_processed resp" "window_size resp = 1"
    by simp_all
qed

theorem process_conversation_without_manager_witness:
  "map_of (sessions one_session) (pcr_session_id (turn_req ''u1'' ''a1'')) =
     Some (plain_engine empty_memory) \<and>
   map_of (sliding_window_managers one_session) (pcr_session_id (turn_req ''u1'' ''a1'')) = None \<and>
   rt_env_window_size quiet_runtime = Inr 4 \<and>
   rt_env_processing_delay quiet_runtime = Inr 1 \<and>
   rt_new_manager quiet_runtime 4 1 True (plain_engine empty_memory) =
     Inr \<lparr>wm_capacity = 4, wm_delay = 1, wm_turns = [], wm_next_sequence = 1\<rparr> \<and>
   process_conversation quiet_runtime (turn_req ''u1'' ''a1'') one_session =
     process_conversation_windowed quiet_runtime (turn_req ''u1'' ''a1'')
       \<lparr>wm_capacity = 4, wm_delay = 1, wm_turns = [], wm_next_sequence = 1\<rparr>
       (plain_engine empty_memory)
       (one_session\<lparr>sliding_window_managers :=
          [(''s1'', \<lparr>wm_capacity = 4, wm_delay = 1, wm_turns = [], wm_next_sequence = 1\<rparr>)]\<rparr>) \<and>
   fst (get_or_create_sliding_window_manager bad_env_runtime ''s1'' None one_session) = Inl ValueError \<and>
   process_conversation bad_env_runtime (turn_req ''u1'' ''a1'') one_session =
     process_conversation_fallback bad_env_runtime (turn_req ''u1'' ''a1'')
       (plain_engine empty_memory) one_session \<and>
   (case fst (process_conversation bad_env_runtime (turn_req ''u1'' ''a1'') one_session) of
      Inl e \<Rightarrow> False
    | Inr resp \<Rightarrow> turn_sequence resp = 1 \<and> turn_processed resp \<and> target_processed resp \<and>
        window_size resp = 1)"
  using process_conversation_without_manager
          [of one_session "turn_req ''u1'' ''a1''" "plain_engine empty_memory" quiet_runtime]
        process_conversation_without_manager
          [of one_session "turn_req ''u1'' ''a1''" "plain_engine empty_memory" bad_env_runtime]
  by (simp add: one_session_def turn_req_def empty_server_def quiet_runtime_def bad_env_runtime_def
        spec_new_manager_def get_or_create_sliding_window_manager_def
        process_conversation_fallback_def plain_engine_def extract_updates_from_response_def
        extract_with_local_processor_def local_processor_body_def apply_validated_updates_def
        process_deletion_events_def empty_delta_def save_and_sync_def quiet_disk_def Let_def
        empty_memory_def empty_graph_def add_conversation_def put_engine_def)


text \<open>
  Claim C10 as stated fails: a session with an engine and no sliding-window manager,
  with no environment variable set, is answered on the windowed path. The first turn
  comes back with \<open>target_processed = false\<close>, and the second with
  \<open>turn_sequence = 2\<close> and \<open>window_size = 2\<close>.
\<close>

theorem process_conversation_counterexample:
  "map_of (sessions one_session) ''s1'' \<noteq> None \<and>
   sliding_window_managers one_session = [] \<and>
   (case fst (process_conversation quiet_runtime (turn_req ''u1'' ''a1'') one_session) of
      Inl e \<Rightarrow> False
    | Inr resp \<Rightarrow>
        pc_message resp = ''Conversation processed successfully with sliding window'' \<and>
        turn_sequence resp = 1 \<and> target_processed resp = False \<and> window_size resp = 1) \<and>
   map fst (sliding_window_managers
     (snd (process_conversation quiet_runtime (turn_req ''u1'' ''a1'') one_session))) = [''s1''] \<and>
   (case fst (process_conversation quiet_runtime (turn_req ''u2'' ''a2'')
               (snd (process_conversation quiet_runtime (turn_req ''u1'' ''a1'') one_session))) of
      Inl e \<Rightarrow> False
    | Inr resp \<Rightarrow>
        turn_sequence resp = 2 \<and> target_processed resp = True \<and> window_size resp = 2)"
  by (simp add: one_session_def turn_req_def empty_server_def plain_engine_def empty_memory_def
        empty_graph_def quiet_runtime_def quiet_disk_def process_conversation_def
        get_or_create_sliding_window_manager_def or_default_def spec_new_manager_def
        process_conversation_windowed_def spec_process_new_conversation_def window_push_def
        window_target_def put_engine_def Let_def send_message_def
        extract_updates_from_response_def extract_with_local_processor_def local_processor_body_def
        apply_validated_updates_def process_deletion_events_def empty_delta_def save_and_sync_def
        zero_counts_def)

subsection \<open>POST /initialize\<close>

text \<open>
  Claim C3, as the code has it, for a request that names its session. When the session
  has an engine, the response carries the current node and edge counts in its message
  (\<open>graph_stats\<close> stays empty) and the state of the server is unchanged. When it has
  none and the memory loaded for it has a non-empty graph, the response carries the
  counts of the loaded graph and the bootstrap does not run: the engine stored for the
  session holds the memory as loaded (graph and conversation log alike), and the
  sliding-window managers, the conflict resolvers, the initialization tasks, the plugin
  character data and the sockets are unchanged. In that case the call has registered the
  request's character with the storage manager, unless the request is a test, and has
  stored the new engine.
\<close>

theorem initialize_existing_session:
  assumes sid: "req_session_id req = Some sid" and nonempty: "sid \<noteq> []"
  shows
   "(\<forall>engine. map_of (sessions srv) sid = Some engine \<longrightarrow>
       initialize_session rt req srv =
         (Inr \<lparr>resp_session_id = sid,
               resp_message = UsingExistingSession (node_count engine) (edge_count engine),
               resp_graph_stats = None\<rparr>, srv)) \<and>
    (\<forall>m. map_of (sessions srv) sid = None \<and>
         rt_load_memory rt
           (if req_is_test req then storage_manager srv
            else snd (register_tavern_character (req_character_card req) sid (storage_manager srv)))
           sid (req_is_test req) = Inr m \<and>
         nodes (knowledge_graph m) \<noteq> [] \<longrightarrow>
       fst (initialize_session rt req srv) =
         Inr \<lparr>resp_session_id = sid,
              resp_message = UsingExistingGraph (int (length (nodes (knowledge_graph m))))
                               (int (length (edges (knowledge_graph m)))),
              resp_graph_stats = None\<rparr> \<and>
       (\<exists>engine. map_of (sessions (snd (initialize_session rt req srv))) sid = Some engine \<and>
                 memory engine = m) \<and>
       storage_manager (snd (initialize_session rt req srv)) =
         (if req_is_test req then storage_manager srv
          else snd (register_tavern_character (req_character_card req) sid (storage_manager srv))) \<and>
       sliding_window_managers (snd (initialize_session rt req srv)) = sliding_window_managers srv \<and>
       conflict_resolvers (snd (initialize_session rt req srv)) = conflict_resolvers srv \<and>
       initialization_tasks (snd (initialize_session rt req srv)) = initialization_tasks srv \<and>
       plugin_character_data (snd (initialize_session rt req srv)) = plugin_character_data srv \<and>
       manager (snd (initialize_session rt req srv)) = manager srv)"
proof (intro conjI allI impI)
  fix engine
  assume "map_of (sessions srv) sid = Some engine"
  with sid nonempty show "initialize_session rt req srv =
         (Inr \<lparr>resp_session_id = sid,
               resp_message = UsingExistingSession (node_count engine) (edge_count engine),
               resp_graph_stats = None\<rparr>, srv)"
    by (simp add: initialize_session_def)
next
  fix m
  assume a: "map_of (sessions srv) sid = None \<and>
         rt_load_memory rt
           (if req_is_test req then storage_manager srv
            else snd (register_tavern_character (req_character_card req) sid (storage_manager srv)))
           sid (req_is_test req) = Inr m \<and>
         nodes (knowledge_graph m) \<noteq> []"
  define eng where "eng = \<lparr>memory = m, rpg_processor = rt_rpg_processor rt,
                                 validation_layer = rt_validation_layer rt,
                                 grag_agent = (if req_enable_agent req then rt_make_agent rt else None)\<rparr>"
  have nc: "node_count eng > 0" using a by (simp add: node_count_def eng_def)
  have r: "initialize_session rt req srv =
     (Inr \<lparr>resp_session_id = sid,
              resp_message = UsingExistingGraph (node_count eng) (edge_count eng),
              resp_graph_stats = None\<rparr>,
      (if req_is_test req then srv
       else srv\<lparr>storage_manager := snd (register_tavern_character (req_character_card req) sid (storage_manager srv))\<rparr>)
      \<lparr>session_creation_locks :=
                          (if sid \<in> set (session_creation_locks srv)
                           then session_creation_locks srv
                           else session_creation_locks srv @ [sid]),
       sessions := AList.update sid eng (sessions srv)\<rparr>)"
    using sid nonempty a nc
    by (cases "req_is_test req")
       (simp_all add: initialize_session_def get_or_create_session_engine_def Let_def eng_def)
  show "fst (initialize_session rt req srv) =
         Inr \<lparr>resp_session_id = sid,
              resp_message = UsingExistingGraph (int (length (nodes (knowledge_graph m))))
                               (int (length (edges (knowledge_graph m)))),
              resp_graph_stats = None\<rparr>"
    by (simp add: r node_count_def edge_count_def eng_def)
  show "\<exists>engine. map_of (sessions (snd (initialize_session rt req srv))) sid = Some engine \<and>
                 memory engine = m"
    by (simp add: r AList.update_conv' eng_def)
  show "storage_manager (snd (initialize_session rt req srv)) =
         (if req_is_test req then storage_manager srv
          else snd (register_tavern_character (req_character_card req) sid (storage_manager srv)))"
    by (simp add: r)
  show "sliding_window_managers (snd (initialize_session rt req srv)) = sliding_window_managers srv"
    by (simp add: r)
  show "conflict_resolvers (snd (initialize_session rt req srv)) = conflict_resolvers srv"
    by (simp add: r)
  show "initialization_tasks (snd (initialize_session rt req srv)) = initialization_tasks srv"
    by (simp add: r)
  show "plugin_character_data (snd (initialize_session rt req srv)) = plugin_character_data srv"
    by (simp add: r)
  show "manager (snd (initialize_session rt req srv)) = manager srv"
    by (simp add: r)
qed

theorem initialize_existing_session_witness:
  "req_session_id (init_req ''s1'') = Some ''s1'' \<and>
   map_of (sessions one_session) ''s1'' = Some (plain_engine empty_memory) \<and>
   initialize_session restart_runtime (init_req ''s1'') one_session =
     (Inr \<lparr>resp_session_id = ''s1'', resp_message = UsingExistingSession 0 0, resp_graph_stats = None\<rparr>,
      one_session) \<and>
   map_of (sessions empty_server) ''s1'' = None \<and>
   rt_load_memory restart_runtime
     (snd (register_tavern_character alice_card ''s1'' (storage_manager empty_server))) ''s1'' False =
     Inr saved_memory \<and>
   nodes (knowledge_graph saved_memory) \<noteq> [] \<and>
   fst (initialize_session restart_runtime (init_req ''s1'') empty_server) =
     Inr \<lparr>resp_session_id = ''s1'', resp_message = UsingExistingGraph 1 0, resp_graph_stats = None\<rparr> \<and>
   manager (snd (initialize_session restart_runtime (init_req ''s1'') empty_server)) = manager empty_server"
  using initialize_existing_session [of "init_req ''s1''" "''s1''" one_session restart_runtime]
        initialize_existing_session [of "init_req ''s1''" "''s1''" empty_server restart_runtime]
  by (simp add: init_req_def one_session_def empty_server_def restart_runtime_def quiet_runtime_def
      saved_memory_def empty_memory_def node_count_def edge_count_def plain_engine_def empty_graph_def)


text \<open>
  Claim C3 as stated fails: session \<open>s1\<close> has no engine, its graph on disk has one
  node, and the request carries the card of Alice. The response reports the existing
  graph, one node and no edge, yet the character registry has gained Alice and the
  server has gained an engine.
\<close>

theorem initialize_counterexample:
  "map_of (sessions empty_server) ''s1'' = None \<and>
   fst (initialize_session restart_runtime (init_req ''s1'') empty_server) =
     Inr \<lparr>resp_session_id = ''s1'', resp_message = UsingExistingGraph 1 0, resp_graph_stats = None\<rparr> \<and>
   character_mapping (storage_manager empty_server) = [] \<and>
   character_mapping (storage_manager (snd (initialize_session restart_runtime (init_req ''s1'') empty_server))) =
     [(''Alice'', ''Alice'')] \<and>
   map fst (sessions (snd (initialize_session restart_runtime (init_req ''s1'') empty_server))) = [''s1''] \<and>
   snd (initialize_session restart_runtime (init_req ''s1'') empty_server) \<noteq> empty_server"
  by (simp add: initialize_session_def get_or_create_session_engine_def Let_def restart_runtime_def
      quiet_runtime_def init_req_def empty_server_def saved_memory_def empty_memory_def node_count_def
      edge_count_def register_tavern_character_def alice_card_def or_default_def safe_dir_char_def
      empty_storage_def plain_node_def)

lemma fold_invariant:
  "(\<And>x acc. x \<in> set xs \<Longrightarrow> P acc \<Longrightarrow> P (f x acc)) \<Longrightarrow> P acc \<Longrightarrow> P (fold f xs acc)"
  by (induction xs arbitrary: acc) simp_all

lemma wf_graph_iff:
  "wf_graph g \<longleftrightarrow> (\<forall>e \<in> set (edges g). get_node g (fst e) \<noteq> None \<and> get_node g (fst (snd e)) \<noteq> None)"
  by (auto simp: wf_graph_def has_node_def list_all_iff)

lemma get_node_mark:
  "get_node (snd (kg_mark_node_deleted nid r g)) x =
     (if x = nid
      then (case get_node g nid of
              None \<Rightarrow> None
            | Some n \<Rightarrow> Some (n\<lparr>is_deleted := True, deletion_reason := Some r\<rparr>))
      else get_node g x)"
  by (simp add: kg_mark_node_deleted_def get_node_def AList.update_conv' split: option.split)

lemma edges_mark: "edges (snd (kg_mark_node_deleted nid r g)) = edges g"
  by (simp add: kg_mark_node_deleted_def split: option.split)

lemma get_node_delete:
  "get_node (snd (kg_delete_node nid g)) x = (if x = nid then None else get_node g x)"
  by (simp add: kg_delete_node_def get_node_def has_node_def AList.delete_conv')

lemma edges_delete_node:
  "edges (snd (kg_delete_node nid g)) =
     (if get_node g nid \<noteq> None then filter (\<lambda>e. \<not> incident nid e) (edges g) else edges g)"
  by (simp add: kg_delete_node_def has_node_def)

lemma nodes_delete_edge: "nodes (snd (kg_delete_edge s t r g)) = nodes g"
  by (simp add: kg_delete_edge_def split: option.split)

lemma edges_delete_edge: "set (edges (snd (kg_delete_edge s t r g))) \<subseteq> set (edges g)"
  by (auto simp: kg_delete_edge_def split: option.split)

text \<open>The graph after one node deletion entry.\<close>

lemma node_deletion_graph:
  "knowledge_graph (fst (process_node_deletion nd (m, c))) =
     (case nd_node_id nd of
        None \<Rightarrow> knowledge_graph m
      | Some i \<Rightarrow>
          (if nd_deletion_type nd = Some ''lost''
           then snd (kg_delete_node i (knowledge_graph m))
           else snd (kg_mark_node_deleted i
                       (case nd_reason nd of None \<Rightarrow> ''No reason provided'' | Some r \<Rightarrow> r)
                       (knowledge_graph m))))"
  by (auto simp: process_node_deletion_def Let_def mark_node_as_deleted_def memory_delete_node_def
        split: option.split prod.split bool.split)

lemma node_deletion_graph':
  "knowledge_graph (fst (process_node_deletion nd acc)) =
     (case nd_node_id nd of
        None \<Rightarrow> knowledge_graph (fst acc)
      | Some i \<Rightarrow>
          (if nd_deletion_type nd = Some ''lost''
           then snd (kg_delete_node i (knowledge_graph (fst acc)))
           else snd (kg_mark_node_deleted i
                       (case nd_reason nd of None \<Rightarrow> ''No reason provided'' | Some r \<Rightarrow> r)
                       (knowledge_graph (fst acc)))))"
  using node_deletion_graph [of nd "fst acc" "snd acc"] by simp

lemma matched_edge_graph:
  "nodes (knowledge_graph (fst (remove_matched_edge e acc))) = nodes (knowledge_graph (fst acc)) \<and>
   set (edges (knowledge_graph (fst (remove_matched_edge e acc)))) \<subseteq>
     set (edges (knowledge_graph (fst acc)))"
proof -
  obtain m c where acc: "acc = (m, c)" by (cases acc)
  obtain s t r where e: "e = (s, t, r)" by (cases e)
  obtain b g where k: "kg_delete_edge (Some s) (Some t) (Some r) (knowledge_graph m) = (b, g)"
    by (cases "kg_delete_edge (Some s) (Some t) (Some r) (knowledge_graph m)")
  have "nodes g = nodes (knowledge_graph m)" "set (edges g) \<subseteq> set (edges (knowledge_graph m))"
    using nodes_delete_edge [of "Some s" "Some t" "Some r" "knowledge_graph m"]
      edges_delete_edge [of "Some s" "Some t" "Some r" "knowledge_graph m"] k by simp_all
  then show ?thesis
    using k by (cases b) (simp_all add: acc e remove_matched_edge_def memory_delete_edge_def)
qed

lemma edge_deletion_graph:
  "nodes (knowledge_graph (fst (process_edge_deletion ed acc))) = nodes (knowledge_graph (fst acc)) \<and>
   set (edges (knowledge_graph (fst (process_edge_deletion ed acc)))) \<subseteq>
     set (edges (knowledge_graph (fst acc)))"
proof -
  obtain m c where acc: "acc = (m, c)" by (cases acc)
  let ?P = "\<lambda>a :: grag_memory \<times> int. nodes (knowledge_graph (fst a)) = nodes (knowledge_graph m) \<and>
       set (edges (knowledge_graph (fst a))) \<subseteq> set (edges (knowledge_graph m))"
  show ?thesis
  proof (cases "ed_source ed = Some ''*'' \<or> ed_relationship ed = Some ''*''")
    case True
    have "?P (fold remove_matched_edge
                (filter (edge_matches (ed_source ed) (ed_target ed) (ed_relationship ed))
                   (edges (knowledge_graph m))) (m, c))"
    proof (rule fold_invariant)
      show "?P (m, c)" by simp
    next
      fix x and a :: "grag_memory \<times> int" assume "?P a"
      with matched_edge_graph [of x a] show "?P (remove_matched_edge x a)" by auto
    qed
    with True show ?thesis by (simp add: acc process_edge_deletion_def Let_def)
  next
    case False
    obtain b g where k: "kg_delete_edge (ed_source ed) (ed_target ed) (ed_relationship ed)
        (knowledge_graph m) = (b, g)"
      by (cases "kg_delete_edge (ed_source ed) (ed_target ed) (ed_relationship ed) (knowledge_graph m)")
    have "nodes g = nodes (knowledge_graph m)" "set (edges g) \<subseteq> set (edges (knowledge_graph m))"
      using nodes_delete_edge [of "ed_source ed" "ed_target ed" "ed_relationship ed" "knowledge_graph m"]
        edges_delete_edge [of "ed_source ed" "ed_target ed" "ed_relationship ed" "knowledge_graph m"] k
      by simp_all
    with False k show ?thesis
      by (cases b) (simp_all add: acc process_edge_deletion_def Let_def memory_delete_edge_def)
  qed
qed

lemma edge_deletions_graph:
  "nodes (knowledge_graph (fst (fold process_edge_deletion eds acc))) = nodes (knowledge_graph (fst acc)) \<and>
   set (edges (knowledge_graph (fst (fold process_edge_deletion eds acc)))) \<subseteq>
     set (edges (knowledge_graph (fst acc)))"
proof (rule fold_invariant [where P = "\<lambda>a :: grag_memory \<times> int. nodes (knowledge_graph (fst a)) = nodes (knowledge_graph (fst acc)) \<and>
   set (edges (knowledge_graph (fst a))) \<subseteq> set (edges (knowledge_graph (fst acc)))"])
  fix x and a :: "grag_memory \<times> int"
  assume "nodes (knowledge_graph (fst a)) = nodes (knowledge_graph (fst acc)) \<and>
   set (edges (knowledge_graph (fst a))) \<subseteq> set (edges (knowledge_graph (fst acc)))"
  with edge_deletion_graph [of x a]
  show "nodes (knowledge_graph (fst (process_edge_deletion x a))) = nodes (knowledge_graph (fst acc)) \<and>
   set (edges (knowledge_graph (fst (process_edge_deletion x a)))) \<subseteq> set (edges (knowledge_graph (fst acc)))"
    by auto
qed simp

text \<open>Well-formedness is kept by a node deletion entry.\<close>

lemma node_deletion_wf:
  assumes "wf_graph (knowledge_graph (fst acc))"
  shows "wf_graph (knowledge_graph (fst (process_node_deletion nd acc)))"
  using assms
  by (auto simp: node_deletion_graph' wf_graph_iff get_node_mark edges_mark get_node_delete
        edges_delete_node incident_def split: option.splits if_splits)

lemma node_deletion_gone:
  assumes "gone nid (knowledge_graph (fst acc))"
  shows "gone nid (knowledge_graph (fst (process_node_deletion nd acc)))"
  using assms
  by (auto simp: gone_def node_deletion_graph' get_node_mark edges_mark get_node_delete
        edges_delete_node split: option.splits if_splits)

lemma lost_makes_gone:
  assumes "wf_graph (knowledge_graph (fst acc))" "nd_node_id nd = Some nid"
    "nd_deletion_type nd = Some ''lost''"
  shows "gone nid (knowledge_graph (fst (process_node_deletion nd acc)))"
  using assms
  by (auto simp: gone_def node_deletion_graph' get_node_delete edges_delete_node wf_graph_iff
        incident_def)

lemma node_deletion_other:
  assumes "nd_node_id nd \<noteq> Some nid"
  shows "get_node (knowledge_graph (fst (process_node_deletion nd acc))) nid =
         get_node (knowledge_graph (fst acc)) nid"
  using assms
  by (auto simp: node_deletion_graph' get_node_mark get_node_delete split: option.splits)

lemma soft_marks:
  assumes "nd_node_id nd = Some nid" "nd_deletion_type nd \<noteq> Some ''lost''"
    "get_node (knowledge_graph (fst acc)) nid \<noteq> None"
  shows "soft_deleted nid (knowledge_graph (fst (process_node_deletion nd acc)))"
  using assms
  by (auto simp: soft_deleted_def node_deletion_graph' get_node_mark split: option.splits)

lemma process_deletion_events_graph:
  "fst (process_deletion_events d m) =
     fst (fold process_edge_deletion (edges_to_delete d)
            (fst (fold process_node_deletion (nodes_to_delete d) (m, 0)), 0))"
  by (simp add: process_deletion_events_def split: prod.split)

lemma gone_after_edges:
  assumes "gone nid (knowledge_graph (fst acc))"
  shows "gone nid (knowledge_graph (fst (fold process_edge_deletion eds acc)))"
  using assms edge_deletions_graph [of eds acc]
  by (auto simp: gone_def get_node_def)

lemma soft_after_edges:
  assumes "soft_deleted nid (knowledge_graph (fst acc))"
  shows "soft_deleted nid (knowledge_graph (fst (fold process_edge_deletion eds acc)))"
  using assms edge_deletions_graph [of eds acc]
  by (auto simp: soft_deleted_def get_node_def)

text \<open>
  Claim C4: in a well-formed graph, for an entry of \<open>nodes_to_delete\<close> that is the only
  one for its node, after \<open>_process_deletion_events\<close> a node deleted with
  \<open>deletion_type = lost\<close> is absent and no edge is incident to it, and a node that was
  present and is deleted with any other deletion type (\<open>death\<close>, \<open>default\<close>, or
  none given) is still present with \<open>is_deleted\<close> set.
\<close>

theorem deletion_events_node_semantics:
  assumes wf: "wf_graph (knowledge_graph m)"
    and mem: "nd \<in> set (nodes_to_delete d)"
    and nid: "nd_node_id nd = Some nid"
    and once: "\<forall>nd' \<in> set (nodes_to_delete d). nd_node_id nd' = Some nid \<longrightarrow> nd' = nd"
  shows "(nd_deletion_type nd = Some ''lost'' \<longrightarrow>
            gone nid (knowledge_graph (fst (process_deletion_events d m)))) \<and>
         (nd_deletion_type nd \<noteq> Some ''lost'' \<and> get_node (knowledge_graph m) nid \<noteq> None \<longrightarrow>
            soft_deleted nid (knowledge_graph (fst (process_deletion_events d m))))"
proof -
  from mem obtain pre post where split: "nodes_to_delete d = pre @ nd # post" and first: "nd \<notin> set pre"
    by (meson split_list_first)
  define a1 :: "grag_memory \<times> int" where "a1 = fold process_node_deletion pre (m, 0)"
  define a2 where "a2 = process_node_deletion nd a1"
  define a3 where "a3 = fold process_node_deletion post a2"
  have nodes_fold: "fold process_node_deletion (nodes_to_delete d) (m, 0) = a3"
    by (simp add: split a1_def a2_def a3_def)
  have pre_other: "nd_node_id x \<noteq> Some nid" if "x \<in> set pre" for x
    using that once first split by auto
  have wf1: "wf_graph (knowledge_graph (fst a1))"
    unfolding a1_def
    by (rule fold_invariant [where P = "\<lambda>a. wf_graph (knowledge_graph (fst a))"])
       (simp_all add: node_deletion_wf wf)
  have same1: "get_node (knowledge_graph (fst a1)) nid = get_node (knowledge_graph m) nid"
    unfolding a1_def
    by (rule fold_invariant
          [where P = "\<lambda>a. get_node (knowledge_graph (fst a)) nid = get_node (knowledge_graph m) nid"])
       (simp_all add: node_deletion_other pre_other)
  have final: "fst (process_deletion_events d m) =
      fst (fold process_edge_deletion (edges_to_delete d) (fst a3, 0))"
    by (simp add: process_deletion_events_graph nodes_fold)
  show ?thesis
  proof (intro conjI impI)
    assume lost: "nd_deletion_type nd = Some ''lost''"
    have "gone nid (knowledge_graph (fst a2))"
      unfolding a2_def using wf1 nid lost by (rule lost_makes_gone)
    then have "gone nid (knowledge_graph (fst a3))"
      unfolding a3_def
      by (intro fold_invariant [where P = "\<lambda>a. gone nid (knowledge_graph (fst a))"])
         (simp_all add: node_deletion_gone)
    then have "gone nid (knowledge_graph (fst (fold process_edge_deletion (edges_to_delete d) (fst a3, 0))))"
      by (intro gone_after_edges) simp
    then show "gone nid (knowledge_graph (fst (process_deletion_events d m)))"
      by (simp add: final)
  next
    assume soft: "nd_deletion_type nd \<noteq> Some ''lost'' \<and> get_node (knowledge_graph m) nid \<noteq> None"
    have s2: "soft_deleted nid (knowledge_graph (fst a2))"
      unfolding a2_def using nid soft same1 by (intro soft_marks) simp_all
    have step: "soft_deleted nid (knowledge_graph (fst (process_node_deletion x a)))"
      if "x \<in> set post" "soft_deleted nid (knowledge_graph (fst a))" for x a
    proof (cases "nd_node_id x = Some nid")
      case True
      with once that(1) split have "x = nd" by auto
      moreover from that(2) have "get_node (knowledge_graph (fst a)) nid \<noteq> None"
        by (auto simp: soft_deleted_def split: option.splits)
      ultimately show ?thesis using nid soft by (intro soft_marks) simp_all
    next
      case False
      with that(2) show ?thesis by (simp add: soft_deleted_def node_deletion_other)
    qed
    have "soft_deleted nid (knowledge_graph (fst a3))"
      unfolding a3_def
      by (intro fold_invariant [where P = "\<lambda>a. soft_deleted nid (knowledge_graph (fst a))"])
         (simp_all add: step s2)
    then have "soft_deleted nid (knowledge_graph (fst (fold process_edge_deletion (edges_to_delete d) (fst a3, 0))))"
      by (intro soft_after_edges) simp
    then show "soft_deleted nid (knowledge_graph (fst (process_deletion_events d m)))"
      by (simp add: final)
  qed
qed

theorem deletion_events_node_semantics_witness:
  "wf_graph story_graph \<and>
   death_entry \<in> set (nodes_to_delete story_delta) \<and>
   lost_entry \<in> set (nodes_to_delete story_delta) \<and>
   get_node story_graph ''character_npc_a'' \<noteq> None \<and>
   soft_deleted ''character_npc_a''
     (knowledge_graph (fst (process_deletion_events story_delta
        (empty_memory\<lparr>knowledge_graph := story_graph\<rparr>)))) \<and>
   gone ''item_amulet''
     (knowledge_graph (fst (process_deletion_events story_delta
        (empty_memory\<lparr>knowledge_graph := story_graph\<rparr>)))) \<and>
   map fst (nodes (knowledge_graph (fst (process_deletion_events story_delta
        (empty_memory\<lparr>knowledge_graph := story_graph\<rparr>))))) =
     [''character_hero'', ''character_npc_a''] \<and>
   edges (knowledge_graph (fst (process_deletion_events story_delta
        (empty_memory\<lparr>knowledge_graph := story_graph\<rparr>)))) =
     [(''character_npc_a'', ''character_hero'', ''enemy_of'')]"
proof -
  have wf: "wf_graph (knowledge_graph (empty_memory\<lparr>knowledge_graph := story_graph\<rparr>))"
    by (simp add: wf_graph_def has_node_def get_node_def story_graph_def death_entry_def lost_entry_def story_delta_def empty_delta_def
          empty_memory_def plain_node_def)
  have m1: "death_entry \<in> set (nodes_to_delete story_delta)"
    and m2: "lost_entry \<in> set (nodes_to_delete story_delta)"
    by (simp_all add: story_graph_def death_entry_def lost_entry_def story_delta_def empty_delta_def
          empty_memory_def plain_node_def)
  have o1: "\<forall>nd' \<in> set (nodes_to_delete story_delta).
              nd_node_id nd' = Some ''character_npc_a'' \<longrightarrow> nd' = death_entry"
    and o2: "\<forall>nd' \<in> set (nodes_to_delete story_delta).
              nd_node_id nd' = Some ''item_amulet'' \<longrightarrow> nd' = lost_entry"
    by (simp_all add: story_graph_def death_entry_def lost_entry_def story_delta_def empty_delta_def
          empty_memory_def plain_node_def)
  have present: "get_node story_graph ''character_npc_a'' \<noteq> None"
    by (simp add: get_node_def story_graph_def death_entry_def lost_entry_def story_delta_def empty_delta_def
          empty_memory_def plain_node_def)
  have eval: "knowledge_graph (fst (process_deletion_events story_delta
        (empty_memory\<lparr>knowledge_graph := story_graph\<rparr>))) =
     \<lparr>nodes = [(''character_hero'', plain_node ''character''),
               (''character_npc_a'', (plain_node ''character'')\<lparr>is_deleted := True, deletion_reason := Some ''slain''\<rparr>)],
      edges = [(''character_npc_a'', ''character_hero'', ''enemy_of'')]\<rparr>"
    by (simp add: process_deletion_events_def process_node_deletion_def mark_node_as_deleted_def
          memory_delete_node_def kg_mark_node_deleted_def kg_delete_node_def get_node_def has_node_def
          incident_def story_graph_def death_entry_def lost_entry_def story_delta_def empty_delta_def
          empty_memory_def plain_node_def)
  from deletion_events_node_semantics [OF wf m1 _ o1]
       deletion_events_node_semantics [OF wf m2 _ o2]
  have "soft_deleted ''character_npc_a''
     (knowledge_graph (fst (process_deletion_events story_delta
        (empty_memory\<lparr>knowledge_graph := story_graph\<rparr>))))"
    and "gone ''item_amulet''
     (knowledge_graph (fst (process_deletion_events story_delta
        (empty_memory\<lparr>knowledge_graph := story_graph\<rparr>))))"
    using present by (simp_all add: death_entry_def lost_entry_def)
  with wf m1 m2 present eval show ?thesis by simp
qed

end
